theory Spec2Isabelle
  imports Complex_Main "HOL-Library.Word" "HOL-Library.Signed_Division"
begin

section \<open>JavaScript values used by the authentication module\<close>

text \<open>
  \<open>localStorage\<close> is a key/value store of strings; \<open>getItem\<close> of a missing key is
  \<open>null\<close> (here \<open>None\<close>). Storage operations are taken not to throw.
\<close>

type_synonym storage = "string \<rightharpoonup> string"

text \<open>Truthiness of a value of type \<open>string | null\<close>: \<open>null\<close> and \<open>''\<close> are falsy.\<close>

definition truthy :: "string option \<Rightarrow> bool" where
  "truthy v = (case v of None \<Rightarrow> False | Some s \<Rightarrow> s \<noteq> [])"

text \<open>\<open>URLSearchParams\<close>: an ordered list of name/value pairs; \<open>get\<close> is the first match.\<close>

type_synonym URLSearchParams = "(string \<times> string) list"

definition URLSearchParams_get :: "URLSearchParams \<Rightarrow> string \<Rightarrow> string option" where
  "URLSearchParams_get ps k = map_of ps k"

text \<open>\<open>Array.prototype.join\<close> on strings.\<close>

fun join :: "string \<Rightarrow> string list \<Rightarrow> string" where
  "join sep [] = []"
| "join sep [x] = x"
| "join sep (x # y # ys) = x @ sep @ join sep (y # ys)"

text \<open>
  \<open>URLSearchParams.toString\<close>: the application/x-www-form-urlencoded serializer. ASCII
  letters, digits and \<open>* - . _\<close> stay, a space becomes \<open>+\<close>, every other byte becomes
  \<open>%XX\<close> in upper-case hexadecimal.
\<close>

definition hex_digit :: "nat \<Rightarrow> char" where
  "hex_digit n = ''0123456789ABCDEF'' ! (n mod 16)"

definition form_safe :: "char \<Rightarrow> bool" where
  "form_safe c =
     (c \<in> set ''ABCDEFGHIJKLMNOPQRSTUVWXYZabcdefghijklmnopqrstuvwxyz0123456789*-._'')"

definition form_encode_char :: "char \<Rightarrow> string" where
  "form_encode_char c =
     (if c = CHR '' '' then ''+''
      else if form_safe c then [c]
      else [CHR ''%'', hex_digit (of_char c div 16), hex_digit (of_char c mod 16)])"

definition form_encode :: "string \<Rightarrow> string" where
  "form_encode s = concat (map form_encode_char s)"

definition URLSearchParams_toString :: "URLSearchParams \<Rightarrow> string" where
  "URLSearchParams_toString ps =
     join ''&'' (map (\<lambda>(k, v). form_encode k @ ''='' @ form_encode v) ps)"

text \<open>\<open>Number.prototype.toString\<close> on an integer: decimal digits, a minus sign if negative.\<close>

fun digits :: "nat \<Rightarrow> string" where
  "digits n =
     (if n < 10 then [''0123456789'' ! n]
      else digits (n div 10) @ [''0123456789'' ! (n mod 10)])"

declare digits.simps [simp del]

definition toString :: "int \<Rightarrow> string" where
  "toString i = (if i < 0 then CHR ''-'' # digits (nat (- i)) else digits (nat i))"

section \<open>The environment and the mutable state\<close>

record http_request =
  url :: string
  request_method :: string
  headers :: "(string \<times> string) list"
  body :: string

text \<open>
  The token endpoint's JSON body: \<open>response.json()\<close> may reject (\<open>JsonThrows\<close>), may
  yield \<open>null\<close>, or yields an object whose \<open>access_token\<close> (a string) and \<open>expires_in\<close>
  (a number of seconds) are each present or not.
\<close>

record token_data =
  access_token :: "string option"
  expires_in :: "int option"

datatype json_result = JsonThrows | JsonNull | JsonObject token_data

text \<open>\<open>fetch\<close> rejects (network error) or resolves to a response with its \<open>ok\<close> flag.\<close>

datatype fetch_result = FetchThrows | Response bool json_result

type_synonym byte = "8 word"

text \<open>JavaScript numbers, as far as the player needs them: an integer or \<open>NaN\<close>.\<close>

datatype number = NaN | Num int

text \<open>The Web API and the playback SDK, as seen by the page.\<close>

record device =
  device_id :: "string option"
  is_active :: bool

record track =
  track_id :: string
  track_name :: string

datatype sdk_state = SdkState (state_device_id: "string option")

datatype api_error = ApiError (status: "int option")

datatype 'a promise = Fulfilled 'a | Rejected api_error

record play_options =
  uris :: "string list"
  play_device_id :: "string option"

datatype api_call =
    GetCurrentState
  | GetMyDevices
  | Play "play_options option"
  | Pause
  | SkipToNext
  | SkipToPrevious
  | SetVolume number
  | TransferMyPlayback "string option list" bool

text \<open>
  The environment of a run: the build-time client id, the token endpoint behind \<open>fetch\<close>,
  the clock, the successive results of \<open>Math.random()\<close>, the platform's SHA-256, and the
  provider's answer to each Web API or SDK call. The \<open>nat\<close> argument of an answer is the
  number of calls issued before it, so that a retry may be answered differently.
\<close>

record env =
  env_client_id :: "string option"
  fetch :: "http_request \<Rightarrow> fetch_result"
  Date_now :: int
  Math_random :: "nat \<Rightarrow> real"
  sha256 :: "byte list \<Rightarrow> byte list"
  on_getCurrentState :: "nat \<Rightarrow> sdk_state option promise"
  on_getMyDevices :: "nat \<Rightarrow> device list promise"
  on_play :: "nat \<Rightarrow> play_options option \<Rightarrow> unit promise"
  on_pause :: "nat \<Rightarrow> unit promise"
  on_skipToNext :: "nat \<Rightarrow> unit promise"
  on_skipToPrevious :: "nat \<Rightarrow> unit promise"
  on_setVolume :: "nat \<Rightarrow> number \<Rightarrow> unit promise"
  on_transferMyPlayback :: "nat \<Rightarrow> string option list \<Rightarrow> unit promise"

datatype console_entry = ConsoleLog string | ConsoleError string

text \<open>
  Everything the page mutates: \<open>localStorage\<close>, the token held by \<open>spotifyApi\<close>, the
  requests sent with \<open>fetch\<close>, the console, the Web API and SDK calls issued, the state of
  the \<open>TerminalWindow\<close> component and the module-level \<open>global...\<close> variables.
\<close>

record world =
  localStorage :: storage
  apiAccessToken :: "string option"
  fetched :: "http_request list"
  console :: "console_entry list"
  calls :: "api_call list"
  player :: bool
  isSpotifyLoggedIn :: bool
  isPlaying :: bool
  currentSongIndex :: number
  shuffledPlaylist :: "track list"
  volume :: number
  globalIsPlaying :: bool
  globalCurrentSongIndex :: number

text \<open>The outcome of a \<open>try\<close> block: a returned value or a thrown exception.\<close>

datatype 'a completion = Normal 'a | Throw string

definition console_log :: "string \<Rightarrow> world \<Rightarrow> world" where
  "console_log m w = w\<lparr>console := console w @ [ConsoleLog m]\<rparr>"

definition console_error :: "string \<Rightarrow> world \<Rightarrow> world" where
  "console_error m w = w\<lparr>console := console w @ [ConsoleError m]\<rparr>"

definition setItem :: "string \<Rightarrow> string \<Rightarrow> world \<Rightarrow> world" where
  "setItem k v w = w\<lparr>localStorage := (localStorage w)(k \<mapsto> v)\<rparr>"

definition removeItem :: "string \<Rightarrow> world \<Rightarrow> world" where
  "removeItem k w = w\<lparr>localStorage := (localStorage w)(k := None)\<rparr>"

definition getItem :: "string \<Rightarrow> world \<Rightarrow> string option" where
  "getItem k w = localStorage w k"

section \<open>spotifyAuth: constants\<close>

definition clientId :: "env \<Rightarrow> string" where
  "clientId e =
     (if truthy (env_client_id e) then the (env_client_id e)
      else ''8c6c0ff17bee46ea9aec45c4d095cfcb'')"

definition redirectUri :: string where
  "redirectUri = ''http://127.0.0.1:3000/callback''"

definition scopes :: "string list" where
  "scopes =
     [''streaming'', ''user-read-email'', ''user-read-private'',
      ''user-read-playback-state'', ''user-modify-playback-state'',
      ''user-read-currently-playing'', ''playlist-read-private'',
      ''playlist-read-collaborative'', ''app-remote-control'']"

section \<open>getAccessToken\<close>

definition token_request :: "env \<Rightarrow> string \<Rightarrow> string \<Rightarrow> http_request" where
  "token_request e code codeVerifier =
     \<lparr>url = ''https://accounts.spotify.com/api/token'',
      request_method = ''POST'',
      headers = [(''Content-Type'', ''application/x-www-form-urlencoded'')],
      body = URLSearchParams_toString
               [(''client_id'', clientId e),
                (''grant_type'', ''authorization_code''),
                (''code'', code),
                (''redirect_uri'', redirectUri),
                (''code_verifier'', codeVerifier)]\<rparr>"

text \<open>\<open>data.expires_in || 3600\<close>: a missing field and the number 0 are both falsy.\<close>

definition expiresIn :: "token_data \<Rightarrow> int" where
  "expiresIn d =
     (case expires_in d of None \<Rightarrow> 3600 | Some n \<Rightarrow> if n = 0 then 3600 else n)"

text \<open>The success branch, taken when \<open>data.access_token\<close> is truthy.\<close>

definition store_token :: "env \<Rightarrow> token_data \<Rightarrow> string \<Rightarrow> world \<Rightarrow> world" where
  "store_token e d accessToken w =
     (let w1 = console_log ''Successfully obtained access token'' w;
          w2 = w1\<lparr>apiAccessToken := Some accessToken\<rparr>;
          expirationTime = Date_now e + expiresIn d * 1000;
          w3 = setItem ''spotify_token_expiration'' (toString expirationTime) w2
      in setItem ''spotify_access_token'' accessToken w3)"

text \<open>The body of the \<open>try\<close> block of \<open>getAccessToken\<close>.\<close>

definition getAccessToken_try ::
  "env \<Rightarrow> string \<Rightarrow> world \<Rightarrow> string option completion \<times> world" where
  "getAccessToken_try e code w =
     (let codeVerifier = getItem ''spotify_code_verifier'' w in
      if \<not> truthy codeVerifier
      then (Normal None, console_error ''No code verifier found in localStorage'' w)
      else
        let w1 = console_log ''Exchanging code for token with code verifier'' w;
            req = token_request e code (the codeVerifier);
            w2 = w1\<lparr>fetched := fetched w1 @ [req]\<rparr>
        in case fetch e req of
             FetchThrows \<Rightarrow> (Throw ''TypeError: Failed to fetch'', w2)
           | Response ok js \<Rightarrow>
               if \<not> ok then
                 (case js of
                    JsonThrows \<Rightarrow> (Throw ''SyntaxError'', w2)
                  | _ \<Rightarrow> (Normal None, console_error ''Token exchange error:'' w2))
               else
                 (case js of
                    JsonThrows \<Rightarrow> (Throw ''SyntaxError'', w2)
                  | JsonNull \<Rightarrow> (Throw ''TypeError'', w2)
                  | JsonObject d \<Rightarrow>
                      if truthy (access_token d)
                      then (Normal (access_token d),
                            store_token e d (the (access_token d)) w2)
                      else (Normal None, w2)))"

definition getAccessToken ::
  "env \<Rightarrow> string \<Rightarrow> world \<Rightarrow> string option completion \<times> world" where
  "getAccessToken e code w =
     (case getAccessToken_try e code w of
        (Throw err, w') \<Rightarrow>
          (Normal None, console_error ''Error exchanging code for token:'' w')
      | (Normal r, w') \<Rightarrow> (Normal r, w'))"

section \<open>handleCallback\<close>

definition csrf_failed :: "string option \<Rightarrow> string option \<Rightarrow> bool" where
  "csrf_failed state storedState = (state = None \<or> state \<noteq> storedState)"

definition handleCallback_try ::
  "env \<Rightarrow> URLSearchParams \<Rightarrow> world \<Rightarrow> string option completion \<times> world" where
  "handleCallback_try e urlSearchParams w =
     (let code = URLSearchParams_get urlSearchParams ''code'';
          error = URLSearchParams_get urlSearchParams ''error'';
          state = URLSearchParams_get urlSearchParams ''state'';
          storedState = getItem ''spotify_auth_state'' w;
          w1 = console_log ''Handling callback with code:'' w;
          w2 = removeItem ''spotify_auth_state'' w1
      in if csrf_failed state storedState
         then (Normal None,
               console_error ''Stored state:''
                 (console_error ''Received state:''
                   (console_error ''State mismatch - possible CSRF attack'' w2)))
         else if truthy error
         then (Normal None, console_error ''Spotify authentication error:'' w2)
         else if truthy code
         then getAccessToken e (the code) w2
         else (Normal None, w2))"

definition handleCallback ::
  "env \<Rightarrow> URLSearchParams \<Rightarrow> world \<Rightarrow> string option completion \<times> world" where
  "handleCallback e urlSearchParams w =
     (case handleCallback_try e urlSearchParams w of
        (Throw err, w') \<Rightarrow> (Normal None, console_error ''Error handling callback:'' w')
      | (Normal r, w') \<Rightarrow> (Normal r, w'))"

section \<open>PKCE verifier, challenge and the login URL\<close>

text \<open>\<open>String.prototype.charAt\<close>: the empty string outside the string.\<close>

definition charAt :: "string \<Rightarrow> int \<Rightarrow> string" where
  "charAt s i = (if 0 \<le> i \<and> i < int (length s) then [s ! nat i] else [])"

definition verifier_possible :: string where
  "verifier_possible =
     ''ABCDEFGHIJKLMNOPQRSTUVWXYZabcdefghijklmnopqrstuvwxyz0123456789-._~''"

text \<open>
  \<open>generateCodeVerifier rnd n\<close> is \<open>text\<close> after \<open>n\<close> rounds of the loop; round \<open>i\<close>
  appends \<open>possible.charAt(Math.floor(Math.random() * possible.length))\<close>, where
  \<open>rnd i\<close> is the result of that call of \<open>Math.random()\<close>.
\<close>

primrec generateCodeVerifier :: "(nat \<Rightarrow> real) \<Rightarrow> nat \<Rightarrow> string" where
  "generateCodeVerifier rnd 0 = []"
| "generateCodeVerifier rnd (Suc i) =
     generateCodeVerifier rnd i
       @ charAt verifier_possible \<lfloor>rnd i * real (length verifier_possible)\<rfloor>"

definition state_possible :: string where
  "state_possible = ''ABCDEFGHIJKLMNOPQRSTUVWXYZabcdefghijklmnopqrstuvwxyz0123456789''"

primrec generateRandomString :: "(nat \<Rightarrow> real) \<Rightarrow> nat \<Rightarrow> string" where
  "generateRandomString rnd 0 = []"
| "generateRandomString rnd (Suc i) =
     generateRandomString rnd i
       @ charAt state_possible \<lfloor>rnd i * real (length state_possible)\<rfloor>"

text \<open>\<open>TextEncoder.encode\<close>, exact on ASCII strings: one byte per character.\<close>

definition TextEncoder_encode :: "string \<Rightarrow> byte list" where
  "TextEncoder_encode s = map of_char s"

text \<open>
  \<open>btoa\<close> on the binary string built from the digest bytes: standard Base64 with the
  alphabet \<open>A-Z a-z 0-9 + /\<close> and \<open>=\<close> padding.
\<close>

definition base64_chars :: string where
  "base64_chars = ''ABCDEFGHIJKLMNOPQRSTUVWXYZabcdefghijklmnopqrstuvwxyz0123456789+/''"

fun btoa :: "byte list \<Rightarrow> string" where
  "btoa [] = []"
| "btoa [a] =
     [base64_chars ! (unat a div 4), base64_chars ! (unat a mod 4 * 16),
      CHR ''='', CHR ''='']"
| "btoa [a, b] =
     [base64_chars ! (unat a div 4), base64_chars ! (unat a mod 4 * 16 + unat b div 16),
      base64_chars ! (unat b mod 16 * 4), CHR ''='']"
| "btoa (a # b # c # bs) =
     [base64_chars ! (unat a div 4), base64_chars ! (unat a mod 4 * 16 + unat b div 16),
      base64_chars ! (unat b mod 16 * 4 + unat c div 64), base64_chars ! (unat c mod 64)]
     @ btoa bs"

text \<open>\<open>s.replace(/c/g, d)\<close> for a single character \<open>c\<close>.\<close>

definition replace_all :: "char \<Rightarrow> char \<Rightarrow> string \<Rightarrow> string" where
  "replace_all c d s = map (\<lambda>x. if x = c then d else x) s"

text \<open>\<open>s.replace(/=+$/, '')\<close>: drop the trailing run of \<open>=\<close>.\<close>

definition strip_padding :: "string \<Rightarrow> string" where
  "strip_padding s = rev (dropWhile (\<lambda>x. x = CHR ''='') (rev s))"

definition generateCodeChallenge :: "env \<Rightarrow> string \<Rightarrow> string" where
  "generateCodeChallenge e codeVerifier =
     (let data = TextEncoder_encode codeVerifier;
          digest = sha256 e data
      in strip_padding (replace_all CHR ''/'' CHR ''_'' (replace_all CHR ''+'' CHR ''-''
           (btoa digest))))"



definition login_params :: "env \<Rightarrow> string \<Rightarrow> string \<Rightarrow> URLSearchParams" where
  "login_params e state codeChallenge =
     [(''client_id'', clientId e),
      (''response_type'', ''code''),
      (''redirect_uri'', redirectUri),
      (''scope'', join '' '' scopes),
      (''show_dialog'', ''true''),
      (''state'', state),
      (''code_challenge_method'', ''S256''),
      (''code_challenge'', codeChallenge)]"

text \<open>
  \<open>getSpotifyLoginUrl\<close>: the verifier takes the first 128 results of \<open>Math.random()\<close>, the
  state the next 16.
\<close>

definition getSpotifyLoginUrl :: "env \<Rightarrow> world \<Rightarrow> string \<times> world" where
  "getSpotifyLoginUrl e w =
     (let w1 = console_log ''Using client ID:'' w;
          w2 = console_log ''Using redirect URI:'' w1;
          codeVerifier = generateCodeVerifier (Math_random e) 128;
          codeChallenge = generateCodeChallenge e codeVerifier;
          w3 = setItem ''spotify_code_verifier'' codeVerifier w2;
          state = generateRandomString (\<lambda>i. Math_random e (128 + i)) 16;
          w4 = setItem ''spotify_auth_state'' state w3;
          params = login_params e state codeChallenge;
          url = ''https://accounts.spotify.com/authorize?'' @ URLSearchParams_toString params
      in (url, console_log ''Authorization URL:'' w4))"


section \<open>TerminalWindow: the Spotify player\<close>

definition js_add :: "number \<Rightarrow> number \<Rightarrow> number" where
  "js_add a b = (case (a, b) of (Num x, Num y) \<Rightarrow> Num (x + y) | _ \<Rightarrow> NaN)"

definition js_sub :: "number \<Rightarrow> number \<Rightarrow> number" where
  "js_sub a b = (case (a, b) of (Num x, Num y) \<Rightarrow> Num (x - y) | _ \<Rightarrow> NaN)"

text \<open>
  The remainder operator \<open>%\<close>: the result has the sign of the dividend, and a zero
  divisor gives \<open>NaN\<close>.
\<close>

definition js_rem :: "number \<Rightarrow> number \<Rightarrow> number" where
  "js_rem a b =
     (case (a, b) of
        (Num x, Num y) \<Rightarrow> if y = 0 then NaN else Num (x smod y)
      | _ \<Rightarrow> NaN)"








datatype window_type = About | Work | Contact | Music | Tools

definition api :: "api_call \<Rightarrow> world \<Rightarrow> world" where
  "api c w = w\<lparr>calls := calls w @ [c]\<rparr>"

definition setAccessToken :: "string option \<Rightarrow> world \<Rightarrow> world" where
  "setAccessToken token w = w\<lparr>apiAccessToken := token\<rparr>"

text \<open>
  The start of the effect that runs when a window opens: for the music window, the user
  counts as logged in when \<open>localStorage\<close> holds a non-empty access token. The effect
  reads neither the clock nor \<open>spotify_token_expiration\<close>.
\<close>

definition TerminalWindow_effect :: "env \<Rightarrow> window_type \<Rightarrow> world \<Rightarrow> world" where
  "TerminalWindow_effect e win_type w =
     (if win_type = Music then
        (let token = getItem ''spotify_access_token'' w in
         if truthy token
         then setAccessToken token
                ((console_log ''Found Spotify token in localStorage'' w)
                   \<lparr>isSpotifyLoggedIn := True\<rparr>)
         else w)
      else w)"

text \<open>The SDK's \<open>authentication_error\<close> listener.\<close>

definition authentication_error :: "world \<Rightarrow> world" where
  "authentication_error w =
     (removeItem ''spotify_access_token'' (console_error ''Failed to authenticate:'' w))
       \<lparr>isSpotifyLoggedIn := False\<rparr>"

text \<open>The handler of a 404 answer to the resume request of \<open>handlePlayPause\<close>.\<close>

definition handlePlayPause_notFound :: "env \<Rightarrow> world \<Rightarrow> world" where
  "handlePlayPause_notFound e w =
     (let w1 = console_log ''No active device, trying to get available devices...'' w;
          w2 = api GetMyDevices w1
      in case on_getMyDevices e (length (calls w1)) of
           Rejected devicesError \<Rightarrow> console_error ''Error getting devices:'' w2
         | Fulfilled devices \<Rightarrow>
             if length devices > 0 then
               (let deviceId = device_id (hd devices);
                    w3 = console_log ''Found device, transferring playback:'' w2;
                    w4 = api (TransferMyPlayback [deviceId] True) w3
                in case on_transferMyPlayback e (length (calls w3)) [deviceId] of
                     Fulfilled u \<Rightarrow> w4\<lparr>isPlaying := True, globalIsPlaying := True\<rparr>
                   | Rejected err \<Rightarrow> console_error ''Error transferring playback:'' w4)
             else console_error ''No available devices for playback'' w2)"

definition handlePlayPause :: "env \<Rightarrow> world \<Rightarrow> world" where
  "handlePlayPause e w =
     (if player w then
        (let token = getItem ''spotify_access_token'' w in
         if truthy token then
           (let w1 = setAccessToken token w in
            if isPlaying w1 then
              (let w2 = api Pause w1
               in case on_pause e (length (calls w1)) of
                    Fulfilled u \<Rightarrow> w2\<lparr>isPlaying := False, globalIsPlaying := False\<rparr>
                  | Rejected error \<Rightarrow>
                      (console_error ''Error pausing playback:'' w2)
                        \<lparr>isPlaying := False, globalIsPlaying := False\<rparr>)
            else
              (let w2 = api (Play None) w1
               in case on_play e (length (calls w1)) None of
                    Fulfilled u \<Rightarrow> w2\<lparr>isPlaying := True, globalIsPlaying := True\<rparr>
                  | Rejected error \<Rightarrow>
                      (let w3 = console_error ''Error resuming playback:'' w2
                       in if status error = Some 404
                          then handlePlayPause_notFound e w3
                          else w3)))
         else w)
      else w)"

definition handleNext :: "env \<Rightarrow> world \<Rightarrow> world" where
  "handleNext e w =
     (if player w then
        (let token = getItem ''spotify_access_token'' w in
         if truthy token then
           (let w1 = setAccessToken token w;
                w2 = api SkipToNext w1
            in case on_skipToNext e (length (calls w1)) of
                 Fulfilled u \<Rightarrow>
                   w2\<lparr>currentSongIndex :=
                        js_rem (js_add (currentSongIndex w2) (Num 1))
                          (Num (int (length (shuffledPlaylist w2))))\<rparr>
               | Rejected error \<Rightarrow> console_error ''Error skipping to next track:'' w2)
         else w)
      else w)"

definition handlePrev :: "env \<Rightarrow> world \<Rightarrow> world" where
  "handlePrev e w =
     (if player w then
        (let token = getItem ''spotify_access_token'' w in
         if truthy token then
           (let w1 = setAccessToken token w;
                w2 = api SkipToPrevious w1
            in case on_skipToPrevious e (length (calls w1)) of
                 Fulfilled u \<Rightarrow>
                   w2\<lparr>currentSongIndex :=
                        js_rem
                          (js_add (js_sub (currentSongIndex w2) (Num 1))
                             (Num (int (length (shuffledPlaylist w2)))))
                          (Num (int (length (shuffledPlaylist w2))))\<rparr>
               | Rejected error \<Rightarrow> console_error ''Error skipping to previous track:'' w2)
         else w)
      else w)"


text \<open>\<open>setCurrentSongIndex(index); globalCurrentSongIndex = index\<close>.\<close>

definition select_index :: "int \<Rightarrow> world \<Rightarrow> world" where
  "select_index index w = w\<lparr>currentSongIndex := Num index, globalCurrentSongIndex := Num index\<rparr>"

definition track_uri :: "int \<Rightarrow> world \<Rightarrow> string" where
  "track_uri index w = ''spotify:track:'' @ track_id (shuffledPlaylist w ! nat index)"

text \<open>\<open>getDeviceId\<close>, the local function of \<open>handleSongClick\<close>.\<close>

definition getDeviceId :: "env \<Rightarrow> sdk_state option \<Rightarrow> world \<Rightarrow> string option \<times> world" where
  "getDeviceId e state w =
     (let deviceId = getItem ''spotify_device_id'' w in
      if (case state of None \<Rightarrow> False | Some s \<Rightarrow> truthy (state_device_id s))
      then (state_device_id (the state), w)
      else if \<not> truthy deviceId then
        (let w1 = api GetMyDevices w
         in case on_getMyDevices e (length (calls w)) of
              Rejected error \<Rightarrow> (deviceId, console_error ''Error getting devices:'' w1)
            | Fulfilled devices \<Rightarrow>
                (let activeDevice = find is_active devices;
                     deviceId1 =
                       (case activeDevice of
                          None \<Rightarrow> None
                        | Some d \<Rightarrow> if truthy (device_id d) then device_id d else None);
                     deviceId2 =
                       (if \<not> truthy deviceId1 \<and> length devices > 0
                        then device_id (hd devices) else deviceId1)
                 in (deviceId2, w1)))
      else (deviceId, w))"

text \<open>The handler of a 404 answer to the first play request.\<close>

definition handleSongClick_notFound :: "env \<Rightarrow> int \<Rightarrow> world \<Rightarrow> world" where
  "handleSongClick_notFound e index w =
     (let w1 = console_log ''Device not available, trying to transfer playback...'' w;
          w2 = select_index index w1;
          w3 = api GetMyDevices w2
      in case on_getMyDevices e (length (calls w2)) of
           Rejected err \<Rightarrow> console_error ''Error getting devices:'' w3
         | Fulfilled devices \<Rightarrow>
             if length devices > 0 then
               (case find is_active devices of
                  None \<Rightarrow> w3
                | Some activeDevice \<Rightarrow>
                    (let opts = \<lparr>uris = [track_uri index w3],
                                 play_device_id = device_id activeDevice\<rparr>;
                         w4 = api (Play (Some opts)) w3
                     in case on_play e (length (calls w3)) (Some opts) of
                          Fulfilled u \<Rightarrow> w4\<lparr>isPlaying := True, globalIsPlaying := True\<rparr>
                        | Rejected err \<Rightarrow>
                            console_error ''Error playing on active device:'' w4))
             else w3)"

text \<open>The play request of \<open>handleSongClick\<close> on a device id, with its two handlers.\<close>

definition handleSongClick_play :: "env \<Rightarrow> int \<Rightarrow> string \<Rightarrow> world \<Rightarrow> world" where
  "handleSongClick_play e index deviceId w =
     (let opts = \<lparr>uris = [track_uri index w], play_device_id = Some deviceId\<rparr>;
          w1 = api (Play (Some opts)) w
      in case on_play e (length (calls w)) (Some opts) of
           Fulfilled u \<Rightarrow> (select_index index w1)\<lparr>isPlaying := True, globalIsPlaying := True\<rparr>
         | Rejected error \<Rightarrow>
             (let w2 = console_error ''Error playing track:'' w1
              in if status error = Some 404 then handleSongClick_notFound e index w2
                 else if status error = Some 403 then
                   select_index index
                     (console_error
                        ''Permission error playing track. Spotify Premium may be required.'' w2)
                 else select_index index w2))"

definition handleSongClick :: "env \<Rightarrow> int \<Rightarrow> world \<Rightarrow> world" where
  "handleSongClick e index w =
     (if player w then
        (let token = getItem ''spotify_access_token'' w in
         if truthy token \<and> 0 \<le> index \<and> index < int (length (shuffledPlaylist w)) then
           (let w1 = setAccessToken token w;
                w2 = api GetCurrentState w1
            in case on_getCurrentState e (length (calls w1)) of
                 Rejected error \<Rightarrow>
                   select_index index (console_error ''Error getting playback state:'' w2)
               | Fulfilled state \<Rightarrow>
                   (case getDeviceId e state w2 of
                      (deviceId, w3) \<Rightarrow>
                        if truthy deviceId
                        then handleSongClick_play e index (the deviceId) w3
                        else select_index index
                               (console_error ''No device available for playback'' w3)))
         else w)
      else
        (let token = getItem ''spotify_access_token'' w in
         if truthy token \<and> 0 \<le> index \<and> index < int (length (shuffledPlaylist w))
         then select_index index (setAccessToken token w)
         else w))"

section \<open>Reading a query string\<close>


fun split_on :: "char \<Rightarrow> string \<Rightarrow> string list" where
  "split_on c [] = [[]]"
| "split_on c (x # xs) =
     (if x = c then [] # split_on c xs
      else (case split_on c xs of [] \<Rightarrow> [[x]] | y # ys \<Rightarrow> (x # y) # ys))"



section \<open>Concrete inputs\<close>

text \<open>
  A provider that answers every token request with \<open>tok1\<close>, valid for 3600 seconds, and
  a browser in which a login has been started (state \<open>S1\<close>, verifier \<open>V1\<close>).
\<close>

definition example_env :: env where
  "example_env =
     \<lparr>env_client_id = None,
      fetch = (\<lambda>req. Response True
                 (JsonObject \<lparr>access_token = Some ''tok1'', expires_in = Some 3600\<rparr>)),
      Date_now = 1000,
      Math_random = (\<lambda>i. 0),
      sha256 = (\<lambda>bs. bs),
      on_getCurrentState = (\<lambda>n. Fulfilled None),
      on_getMyDevices = (\<lambda>n. Fulfilled []),
      on_play = (\<lambda>n opts. Fulfilled ()),
      on_pause = (\<lambda>n. Fulfilled ()),
      on_skipToNext = (\<lambda>n. Fulfilled ()),
      on_skipToPrevious = (\<lambda>n. Fulfilled ()),
      on_setVolume = (\<lambda>n v. Fulfilled ()),
      on_transferMyPlayback = (\<lambda>n ds. Fulfilled ())\<rparr>"

text \<open>The same provider with an unreachable token endpoint.\<close>

definition failing_env :: env where
  "failing_env = example_env\<lparr>fetch := (\<lambda>req. FetchThrows)\<rparr>"

definition example_world :: world where
  "example_world =
     \<lparr>localStorage =
        [''spotify_auth_state'' \<mapsto> ''S1'', ''spotify_code_verifier'' \<mapsto> ''V1''],
      apiAccessToken = None,
      fetched = [],
      console = [],
      calls = [],
      player = False,
      isSpotifyLoggedIn = False,
      isPlaying = False,
      currentSongIndex = Num 0,
      shuffledPlaylist = [],
      volume = Num 50,
      globalIsPlaying = False,
      globalCurrentSongIndex = Num 0\<rparr>"

text \<open>A player with three tracks, logged in with \<open>tok1\<close>.\<close>

definition player_world :: world where
  "player_world =
     example_world
       \<lparr>localStorage := [''spotify_access_token'' \<mapsto> ''tok1''],
        player := True,
        shuffledPlaylist :=
          [\<lparr>track_id = ''t0'', track_name = ''zero''\<rparr>,
           \<lparr>track_id = ''t1'', track_name = ''one''\<rparr>,
           \<lparr>track_id = ''t2'', track_name = ''two''\<rparr>]\<rparr>"

text \<open>The same player on its last track.\<close>

definition last_track_world :: world where
  "last_track_world = player_world\<lparr>currentSongIndex := Num 2\<rparr>"

text \<open>
  A provider that answers every play request with 404 and lists one device, which is not
  active; and the same provider listing that device as active.
\<close>

definition not_found_env :: env where
  "not_found_env =
     example_env
       \<lparr>on_getCurrentState := (\<lambda>n. Fulfilled (Some (SdkState (Some ''d1'')))),
        on_getMyDevices := (\<lambda>n. Fulfilled [\<lparr>device_id = Some ''d2'', is_active = False\<rparr>]),
        on_play := (\<lambda>n opts. Rejected (ApiError (Some 404)))\<rparr>"

definition not_found_active_env :: env where
  "not_found_active_env =
     not_found_env
       \<lparr>on_getMyDevices := (\<lambda>n. Fulfilled [\<lparr>device_id = Some ''d2'', is_active = True\<rparr>])\<rparr>"

text \<open>A provider that rejects every skip request.\<close>

definition offline_env :: env where
  "offline_env =
     example_env
       \<lparr>on_skipToNext := (\<lambda>n. Rejected (ApiError None)),
        on_skipToPrevious := (\<lambda>n. Rejected (ApiError None))\<rparr>"

text \<open>The first environment, 3601 seconds later.\<close>

definition later_env :: env where
  "later_env = example_env\<lparr>Date_now := 3602000\<rparr>"

section \<open>Properties of the callback\<close>

lemmas world_ops =
  console_log_def console_error_def setItem_def removeItem_def getItem_def

lemmas auth_defs =
  handleCallback_def handleCallback_try_def getAccessToken_def getAccessToken_try_def
  store_token_def csrf_failed_def

text \<open>
  Claim C1. Whenever the callback's \<open>state\<close> parameter is absent or differs from the
  persisted CSRF token, \<open>handleCallback\<close> returns \<open>null\<close>, reports the state mismatch,
  sends no request to the token endpoint and stores no access token.
\<close>

theorem handleCallback_csrf_mismatch:
  assumes "URLSearchParams_get ps ''state'' = None
           \<or> URLSearchParams_get ps ''state'' \<noteq> localStorage w ''spotify_auth_state''"
  shows "fst (handleCallback e ps w) = Normal None
         \<and> fetched (snd (handleCallback e ps w)) = fetched w
         \<and> ConsoleError ''State mismatch - possible CSRF attack''
             \<in> set (console (snd (handleCallback e ps w)))
         \<and> apiAccessToken (snd (handleCallback e ps w)) = apiAccessToken w
         \<and> localStorage (snd (handleCallback e ps w)) ''spotify_access_token''
             = localStorage w ''spotify_access_token''"
  using assms by (auto simp add: auth_defs world_ops Let_def)

theorem handleCallback_csrf_mismatch_witness:
  "(URLSearchParams_get [(''code'', ''abc123''), (''state'', ''S2'')] ''state'' = None
     \<or> URLSearchParams_get [(''code'', ''abc123''), (''state'', ''S2'')] ''state''
         \<noteq> localStorage example_world ''spotify_auth_state'')
   \<and> fst (handleCallback example_env [(''code'', ''abc123''), (''state'', ''S2'')] example_world)
       = Normal None
   \<and> fetched (snd (handleCallback example_env [(''code'', ''abc123''), (''state'', ''S2'')]
         example_world)) = []"
proof -
  have h: "URLSearchParams_get [(''code'', ''abc123''), (''state'', ''S2'')] ''state'' = None
     \<or> URLSearchParams_get [(''code'', ''abc123''), (''state'', ''S2'')] ''state''
         \<noteq> localStorage example_world ''spotify_auth_state''"
    by (simp add: URLSearchParams_get_def example_world_def)
  from handleCallback_csrf_mismatch [OF h, of example_env] h show ?thesis
    by (simp add: example_world_def)
qed

lemma getAccessToken_Normal: "\<exists>r w'. getAccessToken e code w = (Normal r, w')"
  by (simp add: getAccessToken_def getAccessToken_try_def Let_def
      split: fetch_result.splits json_result.splits prod.splits completion.splits)

lemma handleCallback_Normal: "\<exists>r w'. handleCallback e ps w = (Normal r, w')"
  by (simp add: handleCallback_def split: prod.splits completion.splits)

lemma getAccessToken_Some_iff:
  "fst (getAccessToken e code w) = Normal (Some tok) \<longleftrightarrow>
     truthy (localStorage w ''spotify_code_verifier'')
     \<and> (\<exists>d. fetch e (token_request e code (the (localStorage w ''spotify_code_verifier'')))
               = Response True (JsonObject d)
            \<and> access_token d = Some tok \<and> tok \<noteq> [])"
  by (auto simp add: getAccessToken_def getAccessToken_try_def Let_def getItem_def truthy_def
      split: fetch_result.splits json_result.splits option.splits)

lemma getAccessToken_verifier:
  "localStorage (snd (getAccessToken e code w)) ''spotify_code_verifier''
     = localStorage w ''spotify_code_verifier''"
  by (simp add: getAccessToken_def getAccessToken_try_def store_token_def world_ops Let_def
      split: fetch_result.splits json_result.splits)

lemma getAccessToken_fetched:
  "fetched (snd (getAccessToken e code w)) =
     (if truthy (localStorage w ''spotify_code_verifier'')
      then fetched w @ [token_request e code (the (localStorage w ''spotify_code_verifier''))]
      else fetched w)"
  by (simp add: getAccessToken_def getAccessToken_try_def store_token_def world_ops Let_def
      split: fetch_result.splits json_result.splits)

lemma handleCallback_Some_iff:
  "fst (handleCallback e ps w) = Normal (Some tok) \<longleftrightarrow>
     URLSearchParams_get ps ''state'' \<noteq> None
     \<and> URLSearchParams_get ps ''state'' = localStorage w ''spotify_auth_state''
     \<and> \<not> truthy (URLSearchParams_get ps ''error'')
     \<and> truthy (URLSearchParams_get ps ''code'')
     \<and> truthy (localStorage w ''spotify_code_verifier'')
     \<and> (\<exists>d. fetch e (token_request e (the (URLSearchParams_get ps ''code''))
                      (the (localStorage w ''spotify_code_verifier'')))
               = Response True (JsonObject d)
            \<and> access_token d = Some tok \<and> tok \<noteq> [])"
proof -
  define W where "W = removeItem ''spotify_auth_state''
      (console_log ''Handling callback with code:'' w)"
  obtain r w' where g: "getAccessToken e (the (URLSearchParams_get ps ''code'')) W = (Normal r, w')"
    using getAccessToken_Normal by blast
  have ls: "localStorage W ''spotify_code_verifier'' = localStorage w ''spotify_code_verifier''"
    by (simp add: W_def world_ops)
  have "r = Some tok \<longleftrightarrow> 
     truthy (localStorage w ''spotify_code_verifier'')
     \<and> (\<exists>d. fetch e (token_request e (the (URLSearchParams_get ps ''code''))
                      (the (localStorage w ''spotify_code_verifier'')))
               = Response True (JsonObject d)
            \<and> access_token d = Some tok \<and> tok \<noteq> [])"
    using getAccessToken_Some_iff [of e "the (URLSearchParams_get ps ''code'')" W tok]
    by (simp add: g ls)
  moreover have "fst (handleCallback e ps w) =
      (if csrf_failed (URLSearchParams_get ps ''state'') (localStorage w ''spotify_auth_state'')
          \<or> truthy (URLSearchParams_get ps ''error'')
          \<or> \<not> truthy (URLSearchParams_get ps ''code'')
       then Normal None else Normal r)"
    by (simp add: handleCallback_def handleCallback_try_def Let_def
        g [unfolded W_def] getItem_def)
  ultimately show ?thesis
    unfolding csrf_failed_def by (cases "URLSearchParams_get ps ''state''") auto
qed

lemma getAccessToken_storage_other:
  "k \<noteq> ''spotify_token_expiration'' \<Longrightarrow> k \<noteq> ''spotify_access_token'' \<Longrightarrow>
   localStorage (snd (getAccessToken e code w)) k = localStorage w k"
  by (simp add: getAccessToken_def getAccessToken_try_def store_token_def world_ops Let_def
      split: fetch_result.splits json_result.splits)

lemmas gat_defs =
  getAccessToken_def getAccessToken_try_def store_token_def world_ops Let_def


lemma getAccessToken_throw_paths:
  assumes "truthy (localStorage w ''spotify_code_verifier'')"
    and "fetch e (token_request e code (the (localStorage w ''spotify_code_verifier'')))
           \<in> {FetchThrows, Response False JsonThrows, Response True JsonThrows,
               Response True JsonNull}"
  shows "(\<exists>m. fst (getAccessToken_try e code w) = Throw m)
         \<and> fst (getAccessToken e code w) = Normal None
         \<and> ConsoleError ''Error exchanging code for token:''
             \<in> set (console (snd (getAccessToken e code w)))"
proof -
  from assms(2) consider
      "fetch e (token_request e code (the (localStorage w ''spotify_code_verifier''))) = FetchThrows"
    | "fetch e (token_request e code (the (localStorage w ''spotify_code_verifier'')))
         = Response False JsonThrows"
    | "fetch e (token_request e code (the (localStorage w ''spotify_code_verifier'')))
         = Response True JsonThrows"
    | "fetch e (token_request e code (the (localStorage w ''spotify_code_verifier'')))
         = Response True JsonNull"
    by blast
  then show ?thesis
  proof cases
    case 1
    with assms(1) show ?thesis by (simp add: gat_defs)
  next
    case 2
    with assms(1) show ?thesis by (simp add: gat_defs)
  next
    case 3
    with assms(1) show ?thesis by (simp add: gat_defs)
  next
    case 4
    with assms(1) show ?thesis by (simp add: gat_defs)
  qed
qed

text \<open>
  Claim C9. \<open>getAccessToken\<close> and \<open>handleCallback\<close> always complete normally. They
  return a token exactly on the full success path (matching state, no error parameter, a
  code, a stored verifier, an ok response whose JSON object carries a non-empty
  \<open>access_token\<close>) and \<open>null\<close> otherwise; an exception thrown by \<open>fetch\<close>, by
  \<open>response.json()\<close> or by reading a field of \<open>null\<close> is caught and turned into \<open>null\<close>.
\<close>

theorem auth_never_throws:
  "(\<exists>r w'. getAccessToken e code w = (Normal r, w'))
   \<and> (\<exists>r w'. handleCallback e ps w = (Normal r, w'))
   \<and> (fst (getAccessToken e code w) = Normal (Some tok) \<longleftrightarrow>
        truthy (localStorage w ''spotify_code_verifier'')
        \<and> (\<exists>d. fetch e (token_request e code (the (localStorage w ''spotify_code_verifier'')))
                  = Response True (JsonObject d)
               \<and> access_token d = Some tok \<and> tok \<noteq> []))
   \<and> (fst (handleCallback e ps w) = Normal (Some tok) \<longleftrightarrow>
        URLSearchParams_get ps ''state'' \<noteq> None
        \<and> URLSearchParams_get ps ''state'' = localStorage w ''spotify_auth_state''
        \<and> \<not> truthy (URLSearchParams_get ps ''error'')
        \<and> truthy (URLSearchParams_get ps ''code'')
        \<and> truthy (localStorage w ''spotify_code_verifier'')
        \<and> (\<exists>d. fetch e (token_request e (the (URLSearchParams_get ps ''code''))
                         (the (localStorage w ''spotify_code_verifier'')))
                  = Response True (JsonObject d)
               \<and> access_token d = Some tok \<and> tok \<noteq> []))
   \<and> (truthy (localStorage w ''spotify_code_verifier'')
        \<and> fetch e (token_request e code (the (localStorage w ''spotify_code_verifier'')))
             \<in> {FetchThrows, Response False JsonThrows, Response True JsonThrows,
                 Response True JsonNull}
        \<longrightarrow> (\<exists>m. fst (getAccessToken_try e code w) = Throw m)
            \<and> fst (getAccessToken e code w) = Normal None)"
proof (intro conjI impI)
  show "\<exists>r w'. getAccessToken e code w = (Normal r, w')"
    by (rule getAccessToken_Normal)
  show "\<exists>r w'. handleCallback e ps w = (Normal r, w')"
    by (rule handleCallback_Normal)
  show "fst (getAccessToken e code w) = Normal (Some tok) \<longleftrightarrow>
        truthy (localStorage w ''spotify_code_verifier'')
        \<and> (\<exists>d. fetch e (token_request e code (the (localStorage w ''spotify_code_verifier'')))
                  = Response True (JsonObject d)
               \<and> access_token d = Some tok \<and> tok \<noteq> [])"
    by (rule getAccessToken_Some_iff)
  show "fst (handleCallback e ps w) = Normal (Some tok) \<longleftrightarrow>
        URLSearchParams_get ps ''state'' \<noteq> None
        \<and> URLSearchParams_get ps ''state'' = localStorage w ''spotify_auth_state''
        \<and> \<not> truthy (URLSearchParams_get ps ''error'')
        \<and> truthy (URLSearchParams_get ps ''code'')
        \<and> truthy (localStorage w ''spotify_code_verifier'')
        \<and> (\<exists>d. fetch e (token_request e (the (URLSearchParams_get ps ''code''))
                         (the (localStorage w ''spotify_code_verifier'')))
                  = Response True (JsonObject d)
               \<and> access_token d = Some tok \<and> tok \<noteq> [])"
    by (rule handleCallback_Some_iff)
next
  assume h: "truthy (localStorage w ''spotify_code_verifier'')
        \<and> fetch e (token_request e code (the (localStorage w ''spotify_code_verifier'')))
             \<in> {FetchThrows, Response False JsonThrows, Response True JsonThrows,
                 Response True JsonNull}"
  from getAccessToken_throw_paths [of w e code] h
  show "\<exists>m. fst (getAccessToken_try e code w) = Throw m" by simp
  from getAccessToken_throw_paths [of w e code] h
  show "fst (getAccessToken e code w) = Normal None" by simp
qed

theorem auth_never_throws_witness:
  "truthy (localStorage example_world ''spotify_code_verifier'')
   \<and> fetch failing_env (token_request failing_env ''abc123''
         (the (localStorage example_world ''spotify_code_verifier'')))
       \<in> {FetchThrows, Response False JsonThrows, Response True JsonThrows,
           Response True JsonNull}
   \<and> (\<exists>m. fst (getAccessToken_try failing_env ''abc123'' example_world) = Throw m)
   \<and> fst (getAccessToken failing_env ''abc123'' example_world) = Normal None
   \<and> fst (handleCallback example_env [(''code'', ''abc123''), (''state'', ''S1'')] example_world)
       = Normal (Some ''tok1'')"
proof -
  have h1: "truthy (localStorage example_world ''spotify_code_verifier'')"
    by (simp add: example_world_def truthy_def)
  have h2: "fetch failing_env (token_request failing_env ''abc123''
         (the (localStorage example_world ''spotify_code_verifier'')))
       \<in> {FetchThrows, Response False JsonThrows, Response True JsonThrows,
           Response True JsonNull}"
    by (simp add: failing_env_def)
  have h3: "URLSearchParams_get [(''code'', ''abc123''), (''state'', ''S1'')] ''state'' \<noteq> None
        \<and> URLSearchParams_get [(''code'', ''abc123''), (''state'', ''S1'')] ''state''
            = localStorage example_world ''spotify_auth_state''
        \<and> \<not> truthy (URLSearchParams_get [(''code'', ''abc123''), (''state'', ''S1'')] ''error'')
        \<and> truthy (URLSearchParams_get [(''code'', ''abc123''), (''state'', ''S1'')] ''code'')"
    by (simp add: URLSearchParams_get_def example_world_def truthy_def)
  have h4: "\<exists>d. fetch example_env (token_request example_env
         (the (URLSearchParams_get [(''code'', ''abc123''), (''state'', ''S1'')] ''code''))
         (the (localStorage example_world ''spotify_code_verifier'')))
       = Response True (JsonObject d) \<and> access_token d = Some ''tok1'' \<and> ''tok1'' \<noteq> []"
    by (simp add: example_env_def)
  from auth_never_throws [of failing_env "''abc123''" example_world
      "[(''code'', ''abc123''), (''state'', ''S1'')]" "''tok1''"] h1 h2
  have t: "(\<exists>m. fst (getAccessToken_try failing_env ''abc123'' example_world) = Throw m)
   \<and> fst (getAccessToken failing_env ''abc123'' example_world) = Normal None"
    by blast
  from auth_never_throws [of example_env "''abc123''" example_world
      "[(''code'', ''abc123''), (''state'', ''S1'')]" "''tok1''"] h1 h3 h4
  have s: "fst (handleCallback example_env [(''code'', ''abc123''), (''state'', ''S1'')]
      example_world) = Normal (Some ''tok1'')"
    by blast
  from h1 h2 t s show ?thesis by blast
qed


lemma toString_example: "toString 3601000 = ''3601000''"
  by (simp add: toString_def digits.simps)


lemma handleCallback_unfold:
  "handleCallback e ps w =
     (let w2 = removeItem ''spotify_auth_state''
                 (console_log ''Handling callback with code:'' w)
      in if csrf_failed (URLSearchParams_get ps ''state'') (localStorage w ''spotify_auth_state'')
         then (Normal None,
               console_error ''Stored state:''
                 (console_error ''Received state:''
                   (console_error ''State mismatch - possible CSRF attack'' w2)))
         else if truthy (URLSearchParams_get ps ''error'')
         then (Normal None, console_error ''Spotify authentication error:'' w2)
         else if truthy (URLSearchParams_get ps ''code'')
         then getAccessToken e (the (URLSearchParams_get ps ''code'')) w2
         else (Normal None, w2))"
proof -
  obtain r w' where g: "getAccessToken e (the (URLSearchParams_get ps ''code''))
      (removeItem ''spotify_auth_state'' (console_log ''Handling callback with code:'' w))
      = (Normal r, w')"
    using getAccessToken_Normal by blast
  show ?thesis
    by (simp add: handleCallback_def handleCallback_try_def Let_def g getItem_def)
qed

lemma handleCallback_storage_other:
  assumes "k \<noteq> ''spotify_token_expiration''" "k \<noteq> ''spotify_access_token''"
    "k \<noteq> ''spotify_auth_state''"
  shows "localStorage (snd (handleCallback e ps w)) k = localStorage w k"
  using assms by (simp add: handleCallback_unfold Let_def getAccessToken_storage_other)
    (simp add: world_ops)

lemma handleCallback_state_removed:
  "localStorage (snd (handleCallback e ps w)) ''spotify_auth_state'' = None"
  by (simp add: handleCallback_unfold Let_def getAccessToken_storage_other)
    (simp add: world_ops)

text \<open>
  Claim C2 states the order: error parameter, state comparison, deletion of the stored
  state after a successful comparison, code, exchange. The code deletes the stored state
  first and compares the state before it looks at the error parameter: with an error
  parameter and a wrong state, the failure reported is the state mismatch, and the stored
  state is gone although the comparison failed.
\<close>

theorem handleCallback_order_counterexample:
  "truthy (URLSearchParams_get [(''error'', ''access_denied''), (''state'', ''BAD'')] ''error'')
   \<and> localStorage example_world ''spotify_auth_state'' = Some ''S1''
   \<and> URLSearchParams_get [(''error'', ''access_denied''), (''state'', ''BAD'')] ''state''
       = Some ''BAD''
   \<and> console (snd (handleCallback example_env
         [(''error'', ''access_denied''), (''state'', ''BAD'')] example_world))
       = [ConsoleLog ''Handling callback with code:'',
          ConsoleError ''State mismatch - possible CSRF attack'',
          ConsoleError ''Received state:'',
          ConsoleError ''Stored state:'']
   \<and> localStorage (snd (handleCallback example_env
         [(''error'', ''access_denied''), (''state'', ''BAD'')] example_world))
        ''spotify_auth_state'' = None"
  by (simp add: handleCallback_unfold URLSearchParams_get_def example_world_def truthy_def
      csrf_failed_def world_ops)

text \<open>
  Claim C2, as the code has it. \<open>handleCallback\<close> always deletes the stored state; then a
  missing or different state fails first, whatever the other parameters; then a non-empty
  error parameter fails; then a missing or empty code fails; only then is the code
  exchanged. No request is sent on the first three paths.
\<close>

theorem handleCallback_order:
  "localStorage (snd (handleCallback e ps w)) ''spotify_auth_state'' = None
   \<and> (URLSearchParams_get ps ''state'' = None
        \<or> URLSearchParams_get ps ''state'' \<noteq> localStorage w ''spotify_auth_state''
      \<longrightarrow> fst (handleCallback e ps w) = Normal None
          \<and> fetched (snd (handleCallback e ps w)) = fetched w
          \<and> console (snd (handleCallback e ps w))
              = console w @ [ConsoleLog ''Handling callback with code:'',
                             ConsoleError ''State mismatch - possible CSRF attack'',
                             ConsoleError ''Received state:'',
                             ConsoleError ''Stored state:''])
   \<and> (URLSearchParams_get ps ''state'' \<noteq> None
        \<and> URLSearchParams_get ps ''state'' = localStorage w ''spotify_auth_state''
        \<and> truthy (URLSearchParams_get ps ''error'')
      \<longrightarrow> fst (handleCallback e ps w) = Normal None
          \<and> fetched (snd (handleCallback e ps w)) = fetched w
          \<and> console (snd (handleCallback e ps w))
              = console w @ [ConsoleLog ''Handling callback with code:'',
                             ConsoleError ''Spotify authentication error:''])
   \<and> (URLSearchParams_get ps ''state'' \<noteq> None
        \<and> URLSearchParams_get ps ''state'' = localStorage w ''spotify_auth_state''
        \<and> \<not> truthy (URLSearchParams_get ps ''error'')
        \<and> \<not> truthy (URLSearchParams_get ps ''code'')
      \<longrightarrow> fst (handleCallback e ps w) = Normal None
          \<and> fetched (snd (handleCallback e ps w)) = fetched w)
   \<and> (URLSearchParams_get ps ''state'' \<noteq> None
        \<and> URLSearchParams_get ps ''state'' = localStorage w ''spotify_auth_state''
        \<and> \<not> truthy (URLSearchParams_get ps ''error'')
        \<and> truthy (URLSearchParams_get ps ''code'')
      \<longrightarrow> handleCallback e ps w
            = getAccessToken e (the (URLSearchParams_get ps ''code''))
                (removeItem ''spotify_auth_state''
                  (console_log ''Handling callback with code:'' w)))"
proof (intro conjI impI)
  show "localStorage (snd (handleCallback e ps w)) ''spotify_auth_state'' = None"
    by (rule handleCallback_state_removed)
next
  assume "URLSearchParams_get ps ''state'' = None
        \<or> URLSearchParams_get ps ''state'' \<noteq> localStorage w ''spotify_auth_state''"
  then have c: "csrf_failed (URLSearchParams_get ps ''state'')
      (localStorage w ''spotify_auth_state'')"
    by (simp add: csrf_failed_def)
  show "fst (handleCallback e ps w) = Normal None"
    using c by (simp add: handleCallback_unfold)
  show "fetched (snd (handleCallback e ps w)) = fetched w"
    using c by (simp add: handleCallback_unfold world_ops)
  show "console (snd (handleCallback e ps w))
              = console w @ [ConsoleLog ''Handling callback with code:'',
                             ConsoleError ''State mismatch - possible CSRF attack'',
                             ConsoleError ''Received state:'',
                             ConsoleError ''Stored state:'']"
    using c by (simp add: handleCallback_unfold world_ops)
next
  assume "URLSearchParams_get ps ''state'' \<noteq> None
        \<and> URLSearchParams_get ps ''state'' = localStorage w ''spotify_auth_state''
        \<and> truthy (URLSearchParams_get ps ''error'')"
  then have c: "\<not> csrf_failed (URLSearchParams_get ps ''state'')
      (localStorage w ''spotify_auth_state'')" and t: "truthy (URLSearchParams_get ps ''error'')"
    by (auto simp add: csrf_failed_def)
  show "fst (handleCallback e ps w) = Normal None"
    using c t by (simp add: handleCallback_unfold)
  show "fetched (snd (handleCallback e ps w)) = fetched w"
    using c t by (simp add: handleCallback_unfold world_ops)
  show "console (snd (handleCallback e ps w))
              = console w @ [ConsoleLog ''Handling callback with code:'',
                             ConsoleError ''Spotify authentication error:'']"
    using c t by (simp add: handleCallback_unfold world_ops)
next
  assume "URLSearchParams_get ps ''state'' \<noteq> None
        \<and> URLSearchParams_get ps ''state'' = localStorage w ''spotify_auth_state''
        \<and> \<not> truthy (URLSearchParams_get ps ''error'')
        \<and> \<not> truthy (URLSearchParams_get ps ''code'')"
  then have c: "\<not> csrf_failed (URLSearchParams_get ps ''state'')
      (localStorage w ''spotify_auth_state'')" and t: "\<not> truthy (URLSearchParams_get ps ''error'')"
      and d: "\<not> truthy (URLSearchParams_get ps ''code'')"
    by (auto simp add: csrf_failed_def)
  show "fst (handleCallback e ps w) = Normal None"
    using c t d by (simp add: handleCallback_unfold)
  show "fetched (snd (handleCallback e ps w)) = fetched w"
    using c t d by (simp add: handleCallback_unfold world_ops)
next
  assume "URLSearchParams_get ps ''state'' \<noteq> None
        \<and> URLSearchParams_get ps ''state'' = localStorage w ''spotify_auth_state''
        \<and> \<not> truthy (URLSearchParams_get ps ''error'')
        \<and> truthy (URLSearchParams_get ps ''code'')"
  then have c: "\<not> csrf_failed (URLSearchParams_get ps ''state'')
      (localStorage w ''spotify_auth_state'')" and t: "\<not> truthy (URLSearchParams_get ps ''error'')"
      and d: "truthy (URLSearchParams_get ps ''code'')"
    by (auto simp add: csrf_failed_def)
  show "handleCallback e ps w
            = getAccessToken e (the (URLSearchParams_get ps ''code''))
                (removeItem ''spotify_auth_state''
                  (console_log ''Handling callback with code:'' w))"
    using c t d by (simp add: handleCallback_unfold)
qed

theorem handleCallback_order_witness:
  "(URLSearchParams_get [(''code'', ''abc123''), (''state'', ''S2'')] ''state'' = None
     \<or> URLSearchParams_get [(''code'', ''abc123''), (''state'', ''S2'')] ''state''
         \<noteq> localStorage example_world ''spotify_auth_state'')
   \<and> fst (handleCallback example_env [(''code'', ''abc123''), (''state'', ''S2'')] example_world)
       = Normal None
   \<and> (URLSearchParams_get [(''error'', ''access_denied''), (''state'', ''S1'')] ''state'' \<noteq> None
        \<and> URLSearchParams_get [(''error'', ''access_denied''), (''state'', ''S1'')] ''state''
            = localStorage example_world ''spotify_auth_state''
        \<and> truthy (URLSearchParams_get [(''error'', ''access_denied''), (''state'', ''S1'')]
              ''error''))
   \<and> console (snd (handleCallback example_env
          [(''error'', ''access_denied''), (''state'', ''S1'')] example_world))
       = [ConsoleLog ''Handling callback with code:'',
          ConsoleError ''Spotify authentication error:'']
   \<and> (URLSearchParams_get [(''state'', ''S1'')] ''state'' \<noteq> None
        \<and> URLSearchParams_get [(''state'', ''S1'')] ''state''
            = localStorage example_world ''spotify_auth_state''
        \<and> \<not> truthy (URLSearchParams_get [(''state'', ''S1'')] ''error'')
        \<and> \<not> truthy (URLSearchParams_get [(''state'', ''S1'')] ''code''))
   \<and> fetched (snd (handleCallback example_env [(''state'', ''S1'')] example_world)) = []
   \<and> (URLSearchParams_get [(''code'', ''abc123''), (''state'', ''S1'')] ''state'' \<noteq> None
        \<and> URLSearchParams_get [(''code'', ''abc123''), (''state'', ''S1'')] ''state''
            = localStorage example_world ''spotify_auth_state''
        \<and> \<not> truthy (URLSearchParams_get [(''code'', ''abc123''), (''state'', ''S1'')] ''error'')
        \<and> truthy (URLSearchParams_get [(''code'', ''abc123''), (''state'', ''S1'')] ''code''))
   \<and> handleCallback example_env [(''code'', ''abc123''), (''state'', ''S1'')] example_world
       = getAccessToken example_env ''abc123''
           (removeItem ''spotify_auth_state''
             (console_log ''Handling callback with code:'' example_world))"
proof -
  have h1: "URLSearchParams_get [(''code'', ''abc123''), (''state'', ''S2'')] ''state'' = None
     \<or> URLSearchParams_get [(''code'', ''abc123''), (''state'', ''S2'')] ''state''
         \<noteq> localStorage example_world ''spotify_auth_state''"
    by (simp add: URLSearchParams_get_def example_world_def)
  have h2: "URLSearchParams_get [(''error'', ''access_denied''), (''state'', ''S1'')] ''state'' \<noteq> None
        \<and> URLSearchParams_get [(''error'', ''access_denied''), (''state'', ''S1'')] ''state''
            = localStorage example_world ''spotify_auth_state''
        \<and> truthy (URLSearchParams_get [(''error'', ''access_denied''), (''state'', ''S1'')]
              ''error'')"
    by (simp add: URLSearchParams_get_def example_world_def truthy_def)
  have h3: "URLSearchParams_get [(''state'', ''S1'')] ''state'' \<noteq> None
        \<and> URLSearchParams_get [(''state'', ''S1'')] ''state''
            = localStorage example_world ''spotify_auth_state''
        \<and> \<not> truthy (URLSearchParams_get [(''state'', ''S1'')] ''error'')
        \<and> \<not> truthy (URLSearchParams_get [(''state'', ''S1'')] ''code'')"
    by (simp add: URLSearchParams_get_def example_world_def truthy_def)
  have h4: "URLSearchParams_get [(''code'', ''abc123''), (''state'', ''S1'')] ''state'' \<noteq> None
        \<and> URLSearchParams_get [(''code'', ''abc123''), (''state'', ''S1'')] ''state''
            = localStorage example_world ''spotify_auth_state''
        \<and> \<not> truthy (URLSearchParams_get [(''code'', ''abc123''), (''state'', ''S1'')] ''error'')
        \<and> truthy (URLSearchParams_get [(''code'', ''abc123''), (''state'', ''S1'')] ''code'')"
    by (simp add: URLSearchParams_get_def example_world_def truthy_def)
  have c: "console example_world = []" and f: "fetched example_world = []"
    by (simp_all add: example_world_def)
  have code: "the (URLSearchParams_get [(''code'', ''abc123''), (''state'', ''S1'')] ''code'')
      = ''abc123''"
    by (simp add: URLSearchParams_get_def)
  from handleCallback_order [of example_env "[(''code'', ''abc123''), (''state'', ''S2'')]"
      example_world] h1
  have r1: "fst (handleCallback example_env [(''code'', ''abc123''), (''state'', ''S2'')]
      example_world) = Normal None"
    by blast
  from handleCallback_order [of example_env
      "[(''error'', ''access_denied''), (''state'', ''S1'')]" example_world] h2
  have r2: "console (snd (handleCallback example_env
          [(''error'', ''access_denied''), (''state'', ''S1'')] example_world))
       = console example_world @ [ConsoleLog ''Handling callback with code:'',
          ConsoleError ''Spotify authentication error:'']"
    by blast
  from handleCallback_order [of example_env "[(''state'', ''S1'')]" example_world] h3
  have r3: "fetched (snd (handleCallback example_env [(''state'', ''S1'')] example_world))
      = fetched example_world"
    by blast
  from handleCallback_order [of example_env "[(''code'', ''abc123''), (''state'', ''S1'')]"
      example_world] h4
  have r4: "handleCallback example_env [(''code'', ''abc123''), (''state'', ''S1'')] example_world
       = getAccessToken example_env
           (the (URLSearchParams_get [(''code'', ''abc123''), (''state'', ''S1'')] ''code''))
           (removeItem ''spotify_auth_state''
             (console_log ''Handling callback with code:'' example_world))"
    by blast
  from r2 c have r2': "console (snd (handleCallback example_env
          [(''error'', ''access_denied''), (''state'', ''S1'')] example_world))
       = [ConsoleLog ''Handling callback with code:'',
          ConsoleError ''Spotify authentication error:'']"
    by simp
  from h1 h2 h3 h4 r1 r2' r3 [unfolded f] r4 [unfolded code]
  show ?thesis by (intro conjI; blast)
qed

text \<open>
  Claim C8 states that the stored code verifier is deleted once the callback has used it.
  After a successful exchange that sent the verifier \<open>V1\<close>, it is still in storage.
\<close>

theorem code_verifier_kept_counterexample:
  "fst (handleCallback example_env [(''code'', ''abc123''), (''state'', ''S1'')] example_world)
     = Normal (Some ''tok1'')
   \<and> fetched (snd (handleCallback example_env [(''code'', ''abc123''), (''state'', ''S1'')]
         example_world)) = [token_request example_env ''abc123'' ''V1'']
   \<and> localStorage (snd (handleCallback example_env [(''code'', ''abc123''), (''state'', ''S1'')]
         example_world)) ''spotify_code_verifier'' = Some ''V1''"
  by (simp add: handleCallback_unfold URLSearchParams_get_def example_world_def truthy_def
      csrf_failed_def gat_defs example_env_def)

section \<open>Properties of the login\<close>































lemma char_of_div_mod: "char_of (of_char c div 16 * 16 + of_char c mod 16 :: nat) = c"
  by simp



lemma split_on_nonempty: "split_on c s \<noteq> []"
  by (induction s) (auto split: list.splits)









lemma getSpotifyLoginUrl_storage:
  "localStorage (snd (getSpotifyLoginUrl e w)) =
     (localStorage w)
       (''spotify_code_verifier'' \<mapsto> generateCodeVerifier (Math_random e) 128,
        ''spotify_auth_state'' \<mapsto> generateRandomString (\<lambda>i. Math_random e (128 + i)) 16)"
  by (simp add: getSpotifyLoginUrl_def Let_def world_ops)

text \<open>
  Claim C8, as the code has it. The verifier is written at login start, replacing any
  earlier one, and neither \<open>handleCallback\<close> nor \<open>getAccessToken\<close> deletes or
  changes it: it stays in \<open>localStorage\<close> after the exchange, until the next login
  replaces it.
\<close>

theorem code_verifier_persists:
  "localStorage (snd (getSpotifyLoginUrl e w)) ''spotify_code_verifier''
     = Some (generateCodeVerifier (Math_random e) 128)
   \<and> localStorage (snd (handleCallback e ps w)) ''spotify_code_verifier''
       = localStorage w ''spotify_code_verifier''
   \<and> localStorage (snd (getAccessToken e code w)) ''spotify_code_verifier''
       = localStorage w ''spotify_code_verifier''"
  by (simp add: getSpotifyLoginUrl_storage handleCallback_storage_other getAccessToken_verifier)

theorem code_verifier_persists_witness:
  "localStorage (snd (getAccessToken example_env ''abc123'' example_world))
     ''spotify_code_verifier'' = Some ''V1''
   \<and> localStorage (snd (handleCallback failing_env [(''code'', ''abc123''), (''state'', ''S1'')]
         example_world)) ''spotify_code_verifier'' = Some ''V1''"
proof -
  have v: "localStorage example_world ''spotify_code_verifier'' = Some ''V1''"
    by (simp add: example_world_def)
  from code_verifier_persists [of example_env example_world
      "[(''code'', ''abc123''), (''state'', ''S1'')]" "''abc123''"]
    code_verifier_persists [of failing_env example_world
      "[(''code'', ''abc123''), (''state'', ''S1'')]" "''abc123''"]
  show ?thesis by (simp add: v)
qed





section \<open>Properties of the player\<close>

lemmas ui_ops = api_def setAccessToken_def select_index_def

text \<open>
  Claim C6 states that the index moves whether or not the skip request succeeds. With a
  provider that rejects the request, \<open>handleNext\<close> and \<open>handlePrev\<close> leave the index of
  a three-track playlist at 0.
\<close>

theorem skip_failure_counterexample:
  "currentSongIndex player_world = Num 0
   \<and> length (shuffledPlaylist player_world) = 3
   \<and> calls (handleNext offline_env player_world) = [SkipToNext]
   \<and> currentSongIndex (handleNext offline_env player_world) = Num 0
   \<and> calls (handlePrev offline_env player_world) = [SkipToPrevious]
   \<and> currentSongIndex (handlePrev offline_env player_world) = Num 0"
  by (simp add: handleNext_def handlePrev_def player_world_def example_world_def
      offline_env_def example_env_def truthy_def world_ops ui_ops Let_def)

lemma js_next:
  assumes "0 \<le> i" "0 < L"
  shows "js_rem (js_add (Num i) (Num 1)) (Num L) = Num ((i + 1) mod L)"
proof -
  from assms have "(i + 1) smod L = (i + 1) mod L"
    by (intro smod_mod_positive) simp_all
  with assms show ?thesis by (simp add: js_rem_def js_add_def)
qed

lemma js_prev:
  assumes "0 \<le> i" "0 < L"
  shows "js_rem (js_add (js_sub (Num i) (Num 1)) (Num L)) (Num L) = Num ((i - 1 + L) mod L)"
proof -
  from assms have "(i - 1 + L) smod L = (i - 1 + L) mod L"
    by (intro smod_mod_positive) simp_all
  with assms show ?thesis by (simp add: js_rem_def js_add_def js_sub_def)
qed

text \<open>
  Claim C6, as the code has it. With a player, a stored token, an index \<open>i \<ge> 0\<close> and a
  playlist of length \<open>L > 0\<close>, \<open>handleNext\<close> sets the index to \<open>(i + 1) mod L\<close> and
  \<open>handlePrev\<close> to \<open>(i - 1 + L) mod L\<close> when the skip request succeeds, and leaves it
  at \<open>i\<close> when the request fails; each sends exactly one request. Without a player or a
  token nothing happens.
\<close>

theorem skip_index:
  "(player w \<and> truthy (localStorage w ''spotify_access_token'')
    \<and> currentSongIndex w = Num i \<and> 0 \<le> i \<and> shuffledPlaylist w \<noteq> [] \<longrightarrow>
      currentSongIndex (handleNext e w) =
        (case on_skipToNext e (length (calls w)) of
           Fulfilled u \<Rightarrow> Num ((i + 1) mod int (length (shuffledPlaylist w)))
         | Rejected err \<Rightarrow> Num i)
      \<and> currentSongIndex (handlePrev e w) =
        (case on_skipToPrevious e (length (calls w)) of
           Fulfilled u \<Rightarrow>
             Num ((i - 1 + int (length (shuffledPlaylist w)))
                    mod int (length (shuffledPlaylist w)))
         | Rejected err \<Rightarrow> Num i)
      \<and> calls (handleNext e w) = calls w @ [SkipToNext]
      \<and> calls (handlePrev e w) = calls w @ [SkipToPrevious])
   \<and> (\<not> (player w \<and> truthy (localStorage w ''spotify_access_token'')) \<longrightarrow>
        handleNext e w = w \<and> handlePrev e w = w)"
proof (intro conjI impI)
  assume h: "player w \<and> truthy (localStorage w ''spotify_access_token'')
    \<and> currentSongIndex w = Num i \<and> 0 \<le> i \<and> shuffledPlaylist w \<noteq> []"
  then have L: "0 < int (length (shuffledPlaylist w))" by simp
  from h have i: "0 \<le> i" by simp
  show "currentSongIndex (handleNext e w) =
        (case on_skipToNext e (length (calls w)) of
           Fulfilled u \<Rightarrow> Num ((i + 1) mod int (length (shuffledPlaylist w)))
         | Rejected err \<Rightarrow> Num i)"
    using h js_next [OF i L]
    by (simp add: handleNext_def Let_def world_ops ui_ops split: promise.splits)
  show "currentSongIndex (handlePrev e w) =
        (case on_skipToPrevious e (length (calls w)) of
           Fulfilled u \<Rightarrow>
             Num ((i - 1 + int (length (shuffledPlaylist w)))
                    mod int (length (shuffledPlaylist w)))
         | Rejected err \<Rightarrow> Num i)"
    using h js_prev [OF i L]
    by (simp add: handlePrev_def Let_def world_ops ui_ops split: promise.splits)
  show "calls (handleNext e w) = calls w @ [SkipToNext]"
    using h by (simp add: handleNext_def Let_def world_ops ui_ops split: promise.splits)
  show "calls (handlePrev e w) = calls w @ [SkipToPrevious]"
    using h by (simp add: handlePrev_def Let_def world_ops ui_ops split: promise.splits)
next
  assume n: "\<not> (player w \<and> truthy (localStorage w ''spotify_access_token''))"
  then show "handleNext e w = w"
    by (auto simp add: handleNext_def Let_def world_ops)
  from n show "handlePrev e w = w"
    by (auto simp add: handlePrev_def Let_def world_ops)
qed

theorem skip_index_witness:
  "(player last_track_world
    \<and> truthy (localStorage last_track_world ''spotify_access_token'')
    \<and> currentSongIndex last_track_world = Num 2 \<and> (0::int) \<le> 2
    \<and> shuffledPlaylist last_track_world \<noteq> [])
   \<and> currentSongIndex (handleNext example_env last_track_world)
       = Num 0
   \<and> currentSongIndex (handlePrev example_env last_track_world)
       = Num 1
   \<and> \<not> (player example_world \<and> truthy (localStorage example_world ''spotify_access_token''))
   \<and> handleNext example_env example_world = example_world"
proof -
  have h: "player last_track_world
    \<and> truthy (localStorage last_track_world ''spotify_access_token'')
    \<and> currentSongIndex last_track_world = Num 2 \<and> (0::int) \<le> 2
    \<and> shuffledPlaylist last_track_world \<noteq> []"
    by (simp add: last_track_world_def player_world_def example_world_def truthy_def)
  have n: "\<not> (player example_world \<and> truthy (localStorage example_world ''spotify_access_token''))"
    by (simp add: example_world_def)
  have l: "length (shuffledPlaylist last_track_world) = 3"
    by (simp add: last_track_world_def player_world_def)
  have f: "on_skipToNext example_env (length (calls last_track_world))
      = Fulfilled ()"
    "on_skipToPrevious example_env (length (calls last_track_world))
      = Fulfilled ()"
    by (simp_all add: example_env_def)
  from skip_index [of last_track_world 2 example_env] h
  have a: "currentSongIndex (handleNext example_env last_track_world)
       = Num 0
   \<and> currentSongIndex (handlePrev example_env last_track_world)
       = Num 1"
    by (simp add: l f)
  from skip_index [of example_world 0 example_env] n
  have b: "handleNext example_env example_world = example_world" by blast
  from h a n b show ?thesis by blast
qed






lemma getAccessToken_stores_token:
  assumes "fst (getAccessToken e code w) = Normal (Some tok)"
  shows "localStorage (snd (getAccessToken e code w)) ''spotify_access_token'' = Some tok
         \<and> tok \<noteq> []"
proof -
  from assms [unfolded getAccessToken_Some_iff] obtain d where
    v: "truthy (localStorage w ''spotify_code_verifier'')" and
    f: "fetch e (token_request e code (the (localStorage w ''spotify_code_verifier'')))
          = Response True (JsonObject d)" and
    t: "access_token d = Some tok" and ne: "tok \<noteq> []"
    by blast
  from v f t ne show ?thesis by (simp add: gat_defs truthy_def)
qed

lemma handleCallback_stores_token:
  assumes "fst (handleCallback e ps w) = Normal (Some tok)"
  shows "localStorage (snd (handleCallback e ps w)) ''spotify_access_token'' = Some tok
         \<and> tok \<noteq> []"
proof -
  from assms have "handleCallback e ps w = getAccessToken e (the (URLSearchParams_get ps ''code''))
      (removeItem ''spotify_auth_state'' (console_log ''Handling callback with code:'' w))"
    by (simp add: handleCallback_unfold Let_def split: if_splits)
  with assms getAccessToken_stores_token show ?thesis by metis
qed

text \<open>
  Claim C4 states that the user stops counting as authenticated once the stored
  expiration has passed. After an exchange at time 1000 with \<open>expires_in = 3600\<close> the
  stored expiration is 3601000; 3601 seconds later the login check still succeeds.
\<close>

theorem login_check_counterexample:
  "fst (handleCallback example_env [(''code'', ''abc123''), (''state'', ''S1'')] example_world)
     = Normal (Some ''tok1'')
   \<and> Date_now example_env = 1000
   \<and> localStorage (snd (handleCallback example_env [(''code'', ''abc123''), (''state'', ''S1'')]
         example_world)) ''spotify_token_expiration'' = Some ''3601000''
   \<and> Date_now later_env = 1000 + 3601 * 1000
   \<and> isSpotifyLoggedIn (TerminalWindow_effect later_env Music
         (snd (handleCallback example_env [(''code'', ''abc123''), (''state'', ''S1'')]
            example_world)))"
  by (simp add: handleCallback_unfold URLSearchParams_get_def example_world_def truthy_def
      csrf_failed_def gat_defs example_env_def later_env_def expiresIn_def toString_example
      TerminalWindow_effect_def ui_ops)

text \<open>
  Claim C4, as the code has it. The login check of the music window succeeds exactly when
  a non-empty access token is stored (or the window already counted as logged in); it
  succeeds after every successful exchange, whatever the clock says, and fails after the
  SDK has reported an authentication error, which removes the token.
\<close>

theorem login_check:
  "isSpotifyLoggedIn (TerminalWindow_effect e Music w)
     = (isSpotifyLoggedIn w \<or> truthy (localStorage w ''spotify_access_token''))
   \<and> (fst (handleCallback e ps w) = Normal (Some tok) \<longrightarrow>
        isSpotifyLoggedIn (TerminalWindow_effect e' Music (snd (handleCallback e ps w))))
   \<and> \<not> isSpotifyLoggedIn (TerminalWindow_effect e' Music (authentication_error w))"
proof (intro conjI impI)
  show "isSpotifyLoggedIn (TerminalWindow_effect e Music w)
     = (isSpotifyLoggedIn w \<or> truthy (localStorage w ''spotify_access_token''))"
    by (simp add: TerminalWindow_effect_def Let_def world_ops ui_ops)
next
  assume "fst (handleCallback e ps w) = Normal (Some tok)"
  from handleCallback_stores_token [OF this]
  show "isSpotifyLoggedIn (TerminalWindow_effect e' Music (snd (handleCallback e ps w)))"
    by (simp add: TerminalWindow_effect_def Let_def world_ops ui_ops truthy_def)
next
  show "\<not> isSpotifyLoggedIn (TerminalWindow_effect e' Music (authentication_error w))"
    by (simp add: TerminalWindow_effect_def authentication_error_def Let_def world_ops ui_ops
        truthy_def)
qed

theorem login_check_witness:
  "fst (handleCallback example_env [(''code'', ''abc123''), (''state'', ''S1'')] example_world)
     = Normal (Some ''tok1'')
   \<and> isSpotifyLoggedIn (TerminalWindow_effect example_env Music
         (snd (handleCallback example_env [(''code'', ''abc123''), (''state'', ''S1'')]
            example_world)))
   \<and> \<not> isSpotifyLoggedIn (TerminalWindow_effect example_env Music example_world)"
proof -
  have h: "fst (handleCallback example_env [(''code'', ''abc123''), (''state'', ''S1'')]
      example_world) = Normal (Some ''tok1'')"
    by (simp add: handleCallback_unfold URLSearchParams_get_def example_world_def truthy_def
        csrf_failed_def gat_defs example_env_def)
  have n: "\<not> (isSpotifyLoggedIn example_world
      \<or> truthy (localStorage example_world ''spotify_access_token''))"
    by (simp add: example_world_def truthy_def)
  from login_check [where e = example_env and w = example_world and e' = example_env
      and ps = "[(''code'', ''abc123''), (''state'', ''S1'')]" and tok = "''tok1''"] h n
  show ?thesis by blast
qed

lemma getDeviceId_frame:
  assumes "getDeviceId e st w = (r, w')"
  shows "shuffledPlaylist w' = shuffledPlaylist w \<and> isPlaying w' = isPlaying w
         \<and> currentSongIndex w' = currentSongIndex w"
  using assms
  by (auto simp add: getDeviceId_def Let_def world_ops ui_ops
      split: if_splits promise.splits)

lemma notFound_calls:
  "calls (handleSongClick_notFound e index w) =
     calls w @ [GetMyDevices]
       @ (case on_getMyDevices e (length (calls w)) of
            Rejected err \<Rightarrow> []
          | Fulfilled devices \<Rightarrow>
              (case find is_active devices of
                 None \<Rightarrow> []
               | Some a \<Rightarrow>
                   [Play (Some \<lparr>uris = [track_uri index w], play_device_id = device_id a\<rparr>)]))"
proof (cases "on_getMyDevices e (length (calls w))")
  case (Rejected err)
  then show ?thesis
    by (simp add: handleSongClick_notFound_def Let_def world_ops ui_ops)
next
  case (Fulfilled devices)
  show ?thesis
  proof (cases "find is_active devices")
    case None
    with Fulfilled show ?thesis
      by (simp add: handleSongClick_notFound_def Let_def world_ops ui_ops)
  next
    case (Some a)
    then have "devices \<noteq> []" by (cases devices) simp_all
    with Fulfilled Some show ?thesis
      by (simp add: handleSongClick_notFound_def Let_def world_ops ui_ops track_uri_def
          split: promise.splits)
  qed
qed

lemma notFound_index:
  "currentSongIndex (handleSongClick_notFound e index w) = Num index
   \<and> globalCurrentSongIndex (handleSongClick_notFound e index w) = Num index"
  by (simp add: handleSongClick_notFound_def Let_def world_ops ui_ops
      split: promise.splits option.splits)

lemma notFound_isPlaying:
  "isPlaying (handleSongClick_notFound e index w) =
     (case on_getMyDevices e (length (calls w)) of
        Rejected err \<Rightarrow> isPlaying w
      | Fulfilled devices \<Rightarrow>
          (case find is_active devices of
             None \<Rightarrow> isPlaying w
           | Some a \<Rightarrow>
               (case on_play e (Suc (length (calls w)))
                       (Some \<lparr>uris = [track_uri index w], play_device_id = device_id a\<rparr>) of
                  Fulfilled u \<Rightarrow> True
                | Rejected err \<Rightarrow> isPlaying w)))"
proof (cases "on_getMyDevices e (length (calls w))")
  case (Rejected err)
  then show ?thesis
    by (simp add: handleSongClick_notFound_def Let_def world_ops ui_ops)
next
  case (Fulfilled devices)
  show ?thesis
  proof (cases "find is_active devices")
    case None
    with Fulfilled show ?thesis
      by (simp add: handleSongClick_notFound_def Let_def world_ops ui_ops)
  next
    case (Some a)
    then have "devices \<noteq> []" by (cases devices) simp_all
    with Fulfilled Some show ?thesis
      by (simp add: handleSongClick_notFound_def Let_def world_ops ui_ops track_uri_def
          split: promise.splits)
  qed
qed

lemma handleSongClick_play_404:
  assumes "on_play e (length (calls w))
             (Some \<lparr>uris = [track_uri index w], play_device_id = Some d\<rparr>)
           = Rejected (ApiError (Some 404))"
  shows "handleSongClick_play e index d w =
           handleSongClick_notFound e index
             (console_error ''Error playing track:''
                (api (Play (Some \<lparr>uris = [track_uri index w], play_device_id = Some d\<rparr>)) w))"
  using assms by (simp add: handleSongClick_play_def Let_def)

lemma handleSongClick_to_play:
  assumes "player w" and "truthy (localStorage w ''spotify_access_token'')"
    and "0 \<le> index" and "index < int (length (shuffledPlaylist w))"
    and "on_getCurrentState e (length (calls w)) = Fulfilled st"
    and "getDeviceId e st
           (api GetCurrentState (setAccessToken (localStorage w ''spotify_access_token'') w))
         = (Some d, w3)"
    and "d \<noteq> []"
  shows "handleSongClick e index w = handleSongClick_play e index d w3"
  using assms
  by (simp add: handleSongClick_def Let_def getItem_def truthy_def setAccessToken_def)

text \<open>
  Claim C5 states that a play request answered with 404 is retried once on the freshly
  resolved device. When the fresh device list holds one device that is not flagged
  active, \<open>handleSongClick\<close> makes no second play request.
\<close>

theorem play_retry_counterexample:
  "on_play not_found_env 1
      (Some \<lparr>uris = [''spotify:track:t1''], play_device_id = Some ''d1''\<rparr>)
     = Rejected (ApiError (Some 404))
   \<and> on_getMyDevices not_found_env 2
       = Fulfilled [\<lparr>device_id = Some ''d2'', is_active = False\<rparr>]
   \<and> calls (handleSongClick not_found_env 1 player_world)
       = [GetCurrentState,
          Play (Some \<lparr>uris = [''spotify:track:t1''], play_device_id = Some ''d1''\<rparr>),
          GetMyDevices]
   \<and> currentSongIndex (handleSongClick not_found_env 1 player_world) = Num 1"
  by (simp add: handleSongClick_def handleSongClick_play_def handleSongClick_notFound_def
      getDeviceId_def not_found_env_def example_env_def player_world_def example_world_def
      truthy_def world_ops ui_ops track_uri_def Let_def)

lemma handleSongClick_not_found_calls:
  assumes "player w" and "truthy (localStorage w ''spotify_access_token'')"
    and "0 \<le> index" and "index < int (length (shuffledPlaylist w))"
    and "on_getCurrentState e (length (calls w)) = Fulfilled st"
    and "getDeviceId e st
           (api GetCurrentState (setAccessToken (localStorage w ''spotify_access_token'') w))
         = (Some d, w3)"
    and "d \<noteq> []"
    and "on_play e (length (calls w3))
           (Some \<lparr>uris = [track_uri index w], play_device_id = Some d\<rparr>)
         = Rejected (ApiError (Some 404))"
  shows "currentSongIndex (handleSongClick e index w) = Num index
    \<and> globalCurrentSongIndex (handleSongClick e index w) = Num index
    \<and> calls (handleSongClick e index w) =
        calls w3
          @ [Play (Some \<lparr>uris = [track_uri index w], play_device_id = Some d\<rparr>), GetMyDevices]
          @ (case on_getMyDevices e (Suc (length (calls w3))) of
               Rejected err \<Rightarrow> []
             | Fulfilled devices \<Rightarrow>
                 (case find is_active devices of
                    None \<Rightarrow> []
                  | Some a \<Rightarrow>
                      [Play (Some \<lparr>uris = [track_uri index w],
                                    play_device_id = device_id a\<rparr>)]))
    \<and> isPlaying (handleSongClick e index w) =
        (case on_getMyDevices e (Suc (length (calls w3))) of
           Rejected err \<Rightarrow> isPlaying w
         | Fulfilled devices \<Rightarrow>
             (case find is_active devices of
                None \<Rightarrow> isPlaying w
              | Some a \<Rightarrow>
                  (case on_play e (Suc (Suc (length (calls w3))))
                          (Some \<lparr>uris = [track_uri index w],
                                 play_device_id = device_id a\<rparr>) of
                     Fulfilled u \<Rightarrow> True
                   | Rejected err \<Rightarrow> isPlaying w)))"
proof -
  from getDeviceId_frame [OF assms(6)]
  have fr: "shuffledPlaylist w3 = shuffledPlaylist w" "isPlaying w3 = isPlaying w"
    by (simp_all add: ui_ops)
  then have uri: "track_uri index w3 = track_uri index w" by (simp add: track_uri_def)
  define w4 where "w4 = console_error ''Error playing track:''
      (api (Play (Some \<lparr>uris = [track_uri index w], play_device_id = Some d\<rparr>)) w3)"
  have w4: "calls w4 = calls w3
        @ [Play (Some \<lparr>uris = [track_uri index w], play_device_id = Some d\<rparr>)]"
    "isPlaying w4 = isPlaying w" "track_uri index w4 = track_uri index w"
    using fr by (simp_all add: w4_def world_ops ui_ops track_uri_def)
  have eq: "handleSongClick e index w = handleSongClick_notFound e index w4"
    using handleSongClick_to_play [OF assms(1-7)] handleSongClick_play_404 [of e w3 index d] assms(8)
    by (simp add: uri w4_def)
  show ?thesis
    unfolding eq
    by (simp add: notFound_index notFound_calls notFound_isPlaying w4
        cong: promise.case_cong option.case_cong)
qed

lemma handlePlayPause_notFound_calls:
  "calls (handlePlayPause_notFound e w) =
     calls w @ [GetMyDevices]
       @ (case on_getMyDevices e (length (calls w)) of
            Rejected err \<Rightarrow> []
          | Fulfilled devices \<Rightarrow>
              (case devices of
                 [] \<Rightarrow> []
               | d # ds \<Rightarrow> [TransferMyPlayback [device_id d] True]))"
  by (simp add: handlePlayPause_notFound_def Let_def world_ops ui_ops
      split: promise.splits list.splits)

lemma handlePlayPause_resume_not_found:
  assumes "player w" and "truthy (localStorage w ''spotify_access_token'')"
    and "\<not> isPlaying w"
    and "on_play e (length (calls w)) None = Rejected (ApiError (Some 404))"
  shows "calls (handlePlayPause e w) =
     calls w @ [Play None, GetMyDevices]
       @ (case on_getMyDevices e (Suc (length (calls w))) of
            Rejected err \<Rightarrow> []
          | Fulfilled devices \<Rightarrow>
              (case devices of
                 [] \<Rightarrow> []
               | d # ds \<Rightarrow> [TransferMyPlayback [device_id d] True]))
     \<and> currentSongIndex (handlePlayPause e w) = currentSongIndex w"
  using assms
  by (simp add: handlePlayPause_def Let_def handlePlayPause_notFound_calls world_ops ui_ops)
    (simp add: handlePlayPause_notFound_def Let_def world_ops ui_ops
      split: promise.splits list.splits)

text \<open>
  Claim C5, as the code has it. When the play request of \<open>handleSongClick\<close> is answered
  with 404, the selected index is set to the requested track, the device list is fetched
  exactly once, and one further play request is made only if that list contains a device
  flagged active, on that device; nothing is requested after it, and the playing flag is
  set only if that second request succeeds. When the resume request of
  \<open>handlePlayPause\<close> is answered with 404, the device list is fetched exactly once and
  playback is transferred to the first listed device, if there is one; nothing is
  requested after it and the index is not touched.
\<close>

theorem play_not_found:
  "(player w \<and> truthy (localStorage w ''spotify_access_token'')
    \<and> 0 \<le> index \<and> index < int (length (shuffledPlaylist w))
    \<and> on_getCurrentState e (length (calls w)) = Fulfilled st
    \<and> getDeviceId e st
         (api GetCurrentState (setAccessToken (localStorage w ''spotify_access_token'') w))
       = (Some d, w3)
    \<and> d \<noteq> []
    \<and> on_play e (length (calls w3))
         (Some \<lparr>uris = [track_uri index w], play_device_id = Some d\<rparr>)
       = Rejected (ApiError (Some 404))
    \<longrightarrow>
      currentSongIndex (handleSongClick e index w) = Num index
      \<and> globalCurrentSongIndex (handleSongClick e index w) = Num index
      \<and> calls (handleSongClick e index w) =
          calls w3
            @ [Play (Some \<lparr>uris = [track_uri index w], play_device_id = Some d\<rparr>),
               GetMyDevices]
            @ (case on_getMyDevices e (Suc (length (calls w3))) of
                 Rejected err \<Rightarrow> []
               | Fulfilled devices \<Rightarrow>
                   (case find is_active devices of
                      None \<Rightarrow> []
                    | Some a \<Rightarrow>
                        [Play (Some \<lparr>uris = [track_uri index w],
                                      play_device_id = device_id a\<rparr>)]))
      \<and> isPlaying (handleSongClick e index w) =
          (case on_getMyDevices e (Suc (length (calls w3))) of
             Rejected err \<Rightarrow> isPlaying w
           | Fulfilled devices \<Rightarrow>
               (case find is_active devices of
                  None \<Rightarrow> isPlaying w
                | Some a \<Rightarrow>
                    (case on_play e (Suc (Suc (length (calls w3))))
                            (Some \<lparr>uris = [track_uri index w],
                                   play_device_id = device_id a\<rparr>) of
                       Fulfilled u \<Rightarrow> True
                     | Rejected err \<Rightarrow> isPlaying w))))
   \<and> (player w \<and> truthy (localStorage w ''spotify_access_token'') \<and> \<not> isPlaying w
       \<and> on_play e (length (calls w)) None = Rejected (ApiError (Some 404))
       \<longrightarrow>
         calls (handlePlayPause e w) =
           calls w @ [Play None, GetMyDevices]
             @ (case on_getMyDevices e (Suc (length (calls w))) of
                  Rejected err \<Rightarrow> []
                | Fulfilled devices \<Rightarrow>
                    (case devices of
                       [] \<Rightarrow> []
                     | a # ds \<Rightarrow> [TransferMyPlayback [device_id a] True]))
         \<and> currentSongIndex (handlePlayPause e w) = currentSongIndex w)"
proof (intro conjI impI)
  assume h: "player w \<and> truthy (localStorage w ''spotify_access_token'')
    \<and> 0 \<le> index \<and> index < int (length (shuffledPlaylist w))
    \<and> on_getCurrentState e (length (calls w)) = Fulfilled st
    \<and> getDeviceId e st
         (api GetCurrentState (setAccessToken (localStorage w ''spotify_access_token'') w))
       = (Some d, w3)
    \<and> d \<noteq> []
    \<and> on_play e (length (calls w3))
         (Some \<lparr>uris = [track_uri index w], play_device_id = Some d\<rparr>)
       = Rejected (ApiError (Some 404))"
  then have a: "player w" "truthy (localStorage w ''spotify_access_token'')"
    "0 \<le> index" "index < int (length (shuffledPlaylist w))"
    "on_getCurrentState e (length (calls w)) = Fulfilled st"
    "getDeviceId e st
         (api GetCurrentState (setAccessToken (localStorage w ''spotify_access_token'') w))
       = (Some d, w3)"
    "d \<noteq> []"
    "on_play e (length (calls w3))
         (Some \<lparr>uris = [track_uri index w], play_device_id = Some d\<rparr>)
       = Rejected (ApiError (Some 404))"
    by blast+
  note t = handleSongClick_not_found_calls [OF a]
  show "currentSongIndex (handleSongClick e index w) = Num index"
    by (rule t [THEN conjunct1])
  show "globalCurrentSongIndex (handleSongClick e index w) = Num index"
    by (rule t [THEN conjunct2, THEN conjunct1])
  show "calls (handleSongClick e index w) =
          calls w3
            @ [Play (Some \<lparr>uris = [track_uri index w], play_device_id = Some d\<rparr>),
               GetMyDevices]
            @ (case on_getMyDevices e (Suc (length (calls w3))) of
                 Rejected err \<Rightarrow> []
               | Fulfilled devices \<Rightarrow>
                   (case find is_active devices of
                      None \<Rightarrow> []
                    | Some a \<Rightarrow>
                        [Play (Some \<lparr>uris = [track_uri index w],
                                      play_device_id = device_id a\<rparr>)]))"
    by (rule t [THEN conjunct2, THEN conjunct2, THEN conjunct1])
  show "isPlaying (handleSongClick e index w) =
          (case on_getMyDevices e (Suc (length (calls w3))) of
             Rejected err \<Rightarrow> isPlaying w
           | Fulfilled devices \<Rightarrow>
               (case find is_active devices of
                  None \<Rightarrow> isPlaying w
                | Some a \<Rightarrow>
                    (case on_play e (Suc (Suc (length (calls w3))))
                            (Some \<lparr>uris = [track_uri index w],
                                   play_device_id = device_id a\<rparr>) of
                       Fulfilled u \<Rightarrow> True
                     | Rejected err \<Rightarrow> isPlaying w)))"
    by (rule t [THEN conjunct2, THEN conjunct2, THEN conjunct2])
next
  assume h: "player w \<and> truthy (localStorage w ''spotify_access_token'') \<and> \<not> isPlaying w
       \<and> on_play e (length (calls w)) None = Rejected (ApiError (Some 404))"
  then have a: "player w" "truthy (localStorage w ''spotify_access_token'')" "\<not> isPlaying w"
    "on_play e (length (calls w)) None = Rejected (ApiError (Some 404))"
    by blast+
  note t = handlePlayPause_resume_not_found [OF a]
  from t show "calls (handlePlayPause e w) =
           calls w @ [Play None, GetMyDevices]
             @ (case on_getMyDevices e (Suc (length (calls w))) of
                  Rejected err \<Rightarrow> []
                | Fulfilled devices \<Rightarrow>
                    (case devices of
                       [] \<Rightarrow> []
                     | a # ds \<Rightarrow> [TransferMyPlayback [device_id a] True]))"
    by (rule conjunct1)
  from t show "currentSongIndex (handlePlayPause e w) = currentSongIndex w"
    by (rule conjunct2)
qed

theorem play_not_found_witness:
  "(player player_world \<and> truthy (localStorage player_world ''spotify_access_token'')
    \<and> (0::int) \<le> 1 \<and> 1 < int (length (shuffledPlaylist player_world))
    \<and> on_getCurrentState not_found_active_env (length (calls player_world))
        = Fulfilled (Some (SdkState (Some ''d1'')))
    \<and> getDeviceId not_found_active_env (Some (SdkState (Some ''d1'')))
         (api GetCurrentState
            (setAccessToken (localStorage player_world ''spotify_access_token'') player_world))
        = (Some ''d1'',
           api GetCurrentState
             (setAccessToken (localStorage player_world ''spotify_access_token'') player_world))
    \<and> ''d1'' \<noteq> []
    \<and> on_play not_found_active_env 1
         (Some \<lparr>uris = [''spotify:track:t1''], play_device_id = Some ''d1''\<rparr>)
        = Rejected (ApiError (Some 404)))
   \<and> currentSongIndex (handleSongClick not_found_active_env 1 player_world) = Num 1
   \<and> calls (handleSongClick not_found_active_env 1 player_world)
       = [GetCurrentState,
          Play (Some \<lparr>uris = [''spotify:track:t1''], play_device_id = Some ''d1''\<rparr>),
          GetMyDevices,
          Play (Some \<lparr>uris = [''spotify:track:t1''], play_device_id = Some ''d2''\<rparr>)]
   \<and> \<not> isPlaying (handleSongClick not_found_active_env 1 player_world)
   \<and> (\<not> isPlaying player_world
       \<and> on_play not_found_active_env (length (calls player_world)) None
           = Rejected (ApiError (Some 404)))
   \<and> calls (handlePlayPause not_found_active_env player_world)
       = [Play None, GetMyDevices, TransferMyPlayback [Some ''d2''] True]"
proof -
  let ?w3 = "api GetCurrentState
      (setAccessToken (localStorage player_world ''spotify_access_token'') player_world)"
  have h1: "player player_world" "truthy (localStorage player_world ''spotify_access_token'')"
    "(0::int) \<le> 1" "1 < int (length (shuffledPlaylist player_world))"
    by (simp_all add: player_world_def example_world_def truthy_def)
  have h5: "on_getCurrentState not_found_active_env (length (calls player_world))
       = Fulfilled (Some (SdkState (Some ''d1'')))"
    by (simp add: not_found_active_env_def not_found_env_def)
  have h6: "getDeviceId not_found_active_env (Some (SdkState (Some ''d1''))) ?w3
      = (Some ''d1'', ?w3)"
    by (simp add: getDeviceId_def truthy_def Let_def)
  have h7: "''d1'' \<noteq> []" by simp
  have c0: "calls player_world = []"
    by (simp add: player_world_def example_world_def)
  have c3: "calls ?w3 = [GetCurrentState]"
    by (simp add: ui_ops c0)
  have uri: "track_uri 1 player_world = ''spotify:track:t1''"
    by (simp add: track_uri_def player_world_def)
  have d: "\<And>n. on_getMyDevices not_found_active_env n
      = Fulfilled [\<lparr>device_id = Some ''d2'', is_active = True\<rparr>]"
    by (simp add: not_found_active_env_def)
  have p2: "\<And>n opts. on_play not_found_active_env n opts = Rejected (ApiError (Some 404))"
    by (simp add: not_found_active_env_def not_found_env_def)
  have ip: "\<not> isPlaying player_world"
    by (simp add: player_world_def example_world_def)
  have prem1: "player player_world \<and> truthy (localStorage player_world ''spotify_access_token'')
    \<and> (0::int) \<le> 1 \<and> 1 < int (length (shuffledPlaylist player_world))
    \<and> on_getCurrentState not_found_active_env (length (calls player_world))
        = Fulfilled (Some (SdkState (Some ''d1'')))
    \<and> getDeviceId not_found_active_env (Some (SdkState (Some ''d1''))) ?w3 = (Some ''d1'', ?w3)
    \<and> ''d1'' \<noteq> []
    \<and> on_play not_found_active_env (length (calls ?w3))
         (Some \<lparr>uris = [track_uri 1 player_world], play_device_id = Some ''d1''\<rparr>)
        = Rejected (ApiError (Some 404))"
    using h1 h5 h6 h7 p2 by (intro conjI; blast)
  have prem2: "player player_world \<and> truthy (localStorage player_world ''spotify_access_token'')
       \<and> \<not> isPlaying player_world
       \<and> on_play not_found_active_env (length (calls player_world)) None
           = Rejected (ApiError (Some 404))"
    using h1 ip p2 by (intro conjI; blast)
  note t = play_not_found [where w = player_world and e = not_found_active_env and index = 1
      and st = "Some (SdkState (Some ''d1''))" and d = "''d1''" and ?w3.0 = ?w3]
  note t1 = t [THEN conjunct1, THEN mp, OF prem1]
  note t2 = t [THEN conjunct2, THEN mp, OF prem2]
  from t1 have r1: "currentSongIndex (handleSongClick not_found_active_env 1 player_world) = Num 1"
    by (rule conjunct1)
  from t1 [THEN conjunct2, THEN conjunct2, THEN conjunct1]
  have r2: "calls (handleSongClick not_found_active_env 1 player_world)
       = [GetCurrentState,
          Play (Some \<lparr>uris = [''spotify:track:t1''], play_device_id = Some ''d1''\<rparr>),
          GetMyDevices,
          Play (Some \<lparr>uris = [''spotify:track:t1''], play_device_id = Some ''d2''\<rparr>)]"
    by (simp add: c3 d uri)
  from t1 [THEN conjunct2, THEN conjunct2, THEN conjunct2]
  have r3: "\<not> isPlaying (handleSongClick not_found_active_env 1 player_world)"
    by (simp add: d p2 ip)
  from t2 [THEN conjunct1]
  have r4: "calls (handlePlayPause not_found_active_env player_world)
       = [Play None, GetMyDevices, TransferMyPlayback [Some ''d2''] True]"
    by (simp add: c0 d)
  have g1: "on_play not_found_active_env 1
         (Some \<lparr>uris = [''spotify:track:t1''], play_device_id = Some ''d1''\<rparr>)
        = Rejected (ApiError (Some 404))"
    by (rule p2)
  have g2: "on_play not_found_active_env (length (calls player_world)) None
           = Rejected (ApiError (Some 404))"
    by (rule p2)
  from h1 h5 h6 h7 g1 r1 r2 r3 ip g2 r4
  show ?thesis by (intro conjI; blast)
qed

end
